theory Spec2Isabelle
  imports Main "HOL-Library.Word" "HOL-Library.Signed_Division" "HOL-Library.Log_Nat"
begin

unbundle bit_operations_syntax

section \<open>Data model of \<^verbatim>\<open>OGLTexture2DArray.cpp\<close>\<close>

text \<open>
  C++ \<^verbatim>\<open>unsigned\<close> is a 32-bit word. C++ \<^verbatim>\<open>int\<close> is a 32-bit word as well, read in two's
  complement: comparisons are the signed ones (\<open>\<le>s\<close>, \<open><s\<close>) and division truncates
  towards zero.
\<close>

type_synonym u32 = "32 word"
type_synonym s32 = "32 word"
type_synonym bytes = "8 word list"

datatype textureUsage = TEXTURE_STATIC | TEXTURE_DYNAMIC | TEXTURE_RENDERTARGET | TEXTURE_DEPTHSTENCIL

datatype textureFilterMode =
  FILTER_NEAREST | FILTER_BILINEAR | FILTER_TRILINEAR | FILTER_ANISOTROPIC | FILTER_DEFAULT

datatype quality = QUALITY_LOW | QUALITY_MEDIUM | QUALITY_HIGH

datatype asyncLoadState = ASYNC_DONE | ASYNC_QUEUED | ASYNC_LOADING | ASYNC_SUCCESS | ASYNC_FAIL

datatype renderSurfaceUpdateMode = SURFACE_MANUALUPDATE | SURFACE_UPDATEVISIBLE | SURFACE_UPDATEALWAYS

datatype compressedFormat =
  CF_NONE | CF_RGBA | CF_DXT1 | CF_DXT3 | CF_DXT5 | CF_ETC1
  | CF_PVRTC_RGB_2BPP | CF_PVRTC_RGBA_2BPP | CF_PVRTC_RGB_4BPP | CF_PVRTC_RGBA_4BPP

text \<open>The messages the code writes to the log, with the texts of the source.\<close>

datatype logMessage = LOGERROR string | LOGWARNING string

text \<open>What a texture unit of the graphics subsystem holds: nothing, this texture, or another one.\<close>

datatype textureRef = NoTexture | This | Other nat

datatype texParameter = GL_TEXTURE_BASE_LEVEL | GL_TEXTURE_MAX_LEVEL

text \<open>
  What stops a call without a return: a null pointer dereferenced, the \<^verbatim>\<open>assert(false)\<close> of
  the component switch, a vector read or written past its size, a shift by the width of
  \<^verbatim>\<open>int\<close> or more.
\<close>

datatype fault = NullPointer | AssertionFailed | IndexOutOfRange | ShiftOutOfRange

text \<open>
  The calls the code issues to OpenGL and to the graphics subsystem, in order. A null data
  pointer is \<open>None\<close>.
\<close>

datatype glCall =
    GenTextures u32
  | DeleteTextures u32
  | GetError
  | SetTextureForUpdate
  | SetTexture nat
  | TexImage3D u32 u32 u32 s32 s32 u32 u32 u32
  | TexSubImage3D u32 u32 s32 s32 u32 s32 s32 u32 u32 u32 "bytes option"
  | CompressedTexImage3D u32 u32 u32 s32 s32 u32 u32
  | CompressedTexSubImage3D u32 u32 s32 s32 u32 s32 s32 u32 u32 u32 "bytes option"
  | TexParameteri u32 texParameter u32
  | UpdateParameters
  | GetTexImage u32 u32 u32 u32
  | GetCompressedTexImage u32 u32

record compressedLevel =
  cl_data :: "bytes option"
  cl_width :: s32
  cl_height :: s32
  cl_rowSize :: u32
  cl_rows :: u32

record image =
  img_compressed :: bool
  img_components :: u32
  img_width :: s32
  img_height :: s32
  img_data :: "bytes option"
  img_compressedFormat :: compressedFormat
  img_numCompressedLevels :: u32

record renderSurface =
  rs_renderBuffer :: u32
  rs_updateMode :: renderSurfaceUpdateMode
  rs_updateQueued :: bool

text \<open>A parsed layer-list descriptor: the \<^verbatim>\<open>name\<close> attributes of its \<^verbatim>\<open>layer\<close> elements.\<close>

record xmlFile =
  xml_layers :: "string list"

text \<open>
  The state the member functions read and write: the members of the texture array object
  and of its base classes \<^verbatim>\<open>Resource\<close>, \<^verbatim>\<open>GPUObject\<close> and \<^verbatim>\<open>Texture\<close> (a member \<^verbatim>\<open>x_\<close> of
  the source is the field \<open>m_x\<close>), and the part of the graphics subsystem, the resource
  cache and the log they touch. \<open>m_graphics\<close> is whether the pointer \<^verbatim>\<open>graphics_\<close> is
  non-null; the fields \<open>gfx_\<close> are the state of the object it points to. An absent GPU
  object is \<open>m_object_name = 0\<close> (\<^verbatim>\<open>object_.name_\<close>).

  In the definitions a member that the intervening calls do not write is read from the
  state the function starts with.
\<close>

record texture2DArray =
  m_name :: string
  m_memoryUse :: u32
  m_asyncLoadState :: asyncLoadState
  m_graphics :: bool
  m_object_name :: u32
  m_dataLost :: bool
  m_dataPending :: bool
  m_target :: u32
  m_format :: u32
  m_usage :: textureUsage
  m_levels :: u32
  m_requestedLevels :: u32
  m_width :: s32
  m_height :: s32
  m_filterMode :: textureFilterMode
  m_sRGB :: bool
  m_mipsToSkip :: "quality \<Rightarrow> u32"
  m_layers :: u32
  m_renderSurface :: "renderSurface option"
  m_layerMemoryUse :: "u32 list"
  m_loadImages :: "image option list"
  m_loadParameters :: "xmlFile option"
  m_subscribedRenderSurfaceUpdate :: bool
  gfx_deviceLost :: bool
  gfx_textures :: "textureRef list"
  gfx_calls :: "glCall list"
  gfx_generated :: nat
  cache_dependencies :: "string list"
  m_log :: "logMessage list"

text \<open>
  The collaborators whose code is not part of the file, as parameters: the format helpers
  of \<^verbatim>\<open>Texture\<close> and \<^verbatim>\<open>Graphics\<close>, the OpenGL driver (the name \<^verbatim>\<open>glGenTextures\<close> returns at
  its k-th call, whether \<^verbatim>\<open>glGetError\<close> reports an error after the allocation in
  \<^verbatim>\<open>Create\<close>), the render surface, the renderer's quality tier, the image class, the XML
  parser, the path helpers and the resource cache. \<open>setNumLevels\<close> is the value that
  \<^verbatim>\<open>Texture::SetNumLevels\<close> gives \<^verbatim>\<open>requestedLevels_\<close>, from its argument and the usage.
\<close>

record 'src env =
  isCompressedFormat :: "u32 \<Rightarrow> bool"
  getSRGBFormat :: "u32 \<Rightarrow> u32"
  getExternalFormat :: "u32 \<Rightarrow> u32"
  getDataType :: "u32 \<Rightarrow> u32"
  getDataSize :: "u32 \<Rightarrow> s32 \<Rightarrow> s32 \<Rightarrow> u32"
  getDataSize3 :: "u32 \<Rightarrow> s32 \<Rightarrow> s32 \<Rightarrow> u32 \<Rightarrow> u32"
  getLevelSize :: "u32 \<Rightarrow> s32 \<Rightarrow> u32 \<Rightarrow> s32"
  genTexture :: "nat \<Rightarrow> u32"
  texImageError :: "u32 \<Rightarrow> s32 \<Rightarrow> s32 \<Rightarrow> u32 \<Rightarrow> bool"
  rsRelease :: "bool \<Rightarrow> renderSurface \<Rightarrow> renderSurface"
  rsOnDeviceLost :: "renderSurface \<Rightarrow> renderSurface"
  newRenderSurface :: renderSurface
  textureQuality :: "quality option"
  gl3Support :: bool
  alphaFormat :: u32
  luminanceFormat :: u32
  luminanceAlphaFormat :: u32
  rgbFormat :: u32
  rgbaFormat :: u32
  getFormat :: "compressedFormat \<Rightarrow> u32"
  convertToRGBA :: "image \<Rightarrow> image option"
  getNextLevel :: "image \<Rightarrow> image option"
  getCompressedLevel :: "image \<Rightarrow> u32 \<Rightarrow> compressedLevel"
  decompress :: "compressedLevel \<Rightarrow> bytes"
  precalculateLevels :: "image \<Rightarrow> image"
  loadXML :: "'src \<Rightarrow> xmlFile option"
  splitPath :: "string \<Rightarrow> string \<times> string \<times> string"
  getPath :: "string \<Rightarrow> string"
  getTempResource :: "string \<Rightarrow> image option"
  checkTextureBudget :: "texture2DArray \<Rightarrow> texture2DArray"
  setParameters :: "xmlFile option \<Rightarrow> texture2DArray \<Rightarrow> texture2DArray"
  cacheExists :: "string \<Rightarrow> bool"
  cacheGetFile :: "string \<Rightarrow> 'src option"
  setNumLevels :: "u32 \<Rightarrow> textureUsage \<Rightarrow> u32"
  sizeofTexture2DArray :: u32
  vectorCapacity :: "u32 list \<Rightarrow> u32"

section \<open>Helpers of the base classes\<close>

text \<open>\<^verbatim>\<open>URHO3D_LOGERROR\<close> and \<^verbatim>\<open>URHO3D_LOGWARNING\<close> add a message to the log.\<close>

definition LOG :: "logMessage \<Rightarrow> texture2DArray \<Rightarrow> texture2DArray" where
  "LOG m t = t\<lparr>m_log := m_log t @ [m]\<rparr>"

text \<open>
  Modelled from the spec: \<^verbatim>\<open>Max\<close>, a template of the math helpers that is not part of the
  file, is the larger of its arguments; on \<^verbatim>\<open>int\<close> the comparison is the signed one.
\<close>

definition Max_int :: "s32 \<Rightarrow> s32 \<Rightarrow> s32" where
  "Max_int lhs rhs = (if rhs <s lhs then lhs else rhs)"

definition Max_unsigned :: "u32 \<Rightarrow> u32 \<Rightarrow> u32" where
  "Max_unsigned lhs rhs = (if rhs < lhs then lhs else rhs)"

text \<open>Division of \<^verbatim>\<open>int\<close> by \<^verbatim>\<open>int\<close>, truncating towards zero.\<close>

definition div_int :: "s32 \<Rightarrow> s32 \<Rightarrow> s32" where
  "div_int a b = word_of_int (sint a sdiv sint b)"

text \<open>
  \<^verbatim>\<open>IsCompressed\<close>, \<^verbatim>\<open>GetLevelWidth\<close> and \<^verbatim>\<open>GetLevelHeight\<close> of \<^verbatim>\<open>Texture\<close> read the members of
  the object; what they compute from them is a parameter.
\<close>

definition IsCompressed :: "'src env \<Rightarrow> texture2DArray \<Rightarrow> bool" where
  "IsCompressed env t = isCompressedFormat env (m_format t)"

definition GetLevelWidth :: "'src env \<Rightarrow> texture2DArray \<Rightarrow> u32 \<Rightarrow> s32" where
  "GetLevelWidth env t level = getLevelSize env (m_levels t) (m_width t) level"

definition GetLevelHeight :: "'src env \<Rightarrow> texture2DArray \<Rightarrow> u32 \<Rightarrow> s32" where
  "GetLevelHeight env t level = getLevelSize env (m_levels t) (m_height t) level"

text \<open>
  Modelled from the spec: \<^verbatim>\<open>graphics_->SetTextureForUpdate(this)\<close>, a member of the graphics
  subsystem, binds this texture to unit 0 for the time of an update.
\<close>

definition Graphics_SetTextureForUpdate :: "texture2DArray \<Rightarrow> texture2DArray" where
  "Graphics_SetTextureForUpdate t =
     t\<lparr>gfx_textures := (gfx_textures t)[0 := This], gfx_calls := gfx_calls t @ [SetTextureForUpdate]\<rparr>"

text \<open>
  Modelled from the spec: \<^verbatim>\<open>graphics_->SetTexture(i, 0)\<close> leaves unit \<open>i\<close> with no texture.
\<close>

definition Graphics_SetTexture0 :: "nat \<Rightarrow> texture2DArray \<Rightarrow> texture2DArray" where
  "Graphics_SetTexture0 i t =
     t\<lparr>gfx_textures := (gfx_textures t)[i := NoTexture], gfx_calls := gfx_calls t @ [SetTexture i]\<rparr>"

text \<open>A call to OpenGL is added to the calls issued.\<close>

definition GL :: "glCall \<Rightarrow> texture2DArray \<Rightarrow> texture2DArray" where
  "GL c t = t\<lparr>gfx_calls := gfx_calls t @ [c]\<rparr>"

section \<open>Release, SetLayers, Create, SetSize\<close>

text \<open>
  The loop of \<^verbatim>\<open>Release\<close> over the texture units \<open>i, i + 1, ...\<close> below
  \<^verbatim>\<open>MAX_TEXTURE_UNITS\<close>, the number of units the graphics subsystem has.
\<close>

function Release_units :: "nat \<Rightarrow> texture2DArray \<Rightarrow> texture2DArray" where
  "Release_units i t =
     (if i < length (gfx_textures t)
      then Release_units (Suc i)
             (if gfx_textures t ! i = This then Graphics_SetTexture0 i t else t)
      else t)"
  by pat_completeness auto
termination
  by (relation "measure (\<lambda>(i, t). length (gfx_textures t) - i)")
     (auto simp: Graphics_SetTexture0_def)

declare Release_units.simps [simp del]

definition Release :: "'src env \<Rightarrow> texture2DArray \<Rightarrow> texture2DArray" where
  "Release env t =
     (if m_object_name t \<noteq> 0 then
        if \<not> m_graphics t then t
        else
          let t1 = (if \<not> gfx_deviceLost t
                    then GL (DeleteTextures (m_object_name t)) (Release_units 0 t)
                    else t);
              t2 = (case m_renderSurface t1 of
                      Some rs \<Rightarrow> t1\<lparr>m_renderSurface := Some (rsRelease env (gfx_deviceLost t1) rs)\<rparr>
                    | None \<Rightarrow> t1)
          in t2\<lparr>m_object_name := 0\<rparr>
      else t)"

definition SetLayers :: "'src env \<Rightarrow> u32 \<Rightarrow> texture2DArray \<Rightarrow> texture2DArray" where
  "SetLayers env layers t = (Release env t)\<lparr>m_layers := layers\<rparr>"

text \<open>The loop of \<^verbatim>\<open>Create\<close> that counts the mip levels: \<^verbatim>\<open>while (maxSize) { maxSize >>= 1; ++levels_; }\<close>.\<close>

function Create_levels :: "u32 \<Rightarrow> u32 \<Rightarrow> u32" where
  "Create_levels maxSize levels =
     (if maxSize \<noteq> 0 then Create_levels (drop_bit 1 maxSize) (levels + 1) else levels)"
  by pat_completeness auto
termination
proof (relation "measure (\<lambda>(maxSize, levels). unat maxSize)")
  show "wf (measure (\<lambda>(maxSize :: u32, levels :: u32). unat maxSize))"
    by simp
next
  fix maxSize levels :: u32
  assume nz: "maxSize \<noteq> 0"
  then have "0 < unat maxSize"
    by (simp add: unat_gt_0)
  then have "unat maxSize div 2 < unat maxSize"
    by simp
  then show "((drop_bit 1 maxSize, levels + 1), (maxSize, levels))
               \<in> measure (\<lambda>(maxSize, levels). unat maxSize)"
    by (simp add: drop_bit_eq_div unat_div)
qed

declare Create_levels.simps [simp del]

definition Create :: "'src env \<Rightarrow> texture2DArray \<Rightarrow> bool \<times> texture2DArray" where
  "Create env t0 =
     (let t = Release env t0 in
      if \<not> m_graphics t \<or> m_width t = 0 \<or> m_height t = 0 \<or> m_layers t = 0 then (False, t)
      else if gfx_deviceLost t then
        (True, LOG (LOGWARNING ''Texture array creation while device is lost'') t)
      else
        let name = genTexture env (gfx_generated t);
            t1 = GL (GenTextures name)
                   (t\<lparr>m_object_name := name, gfx_generated := Suc (gfx_generated t)\<rparr>);
            t2 = Graphics_SetTextureForUpdate t1;
            format = (if m_sRGB t then getSRGBFormat env (m_format t) else m_format t);
            externalFormat = getExternalFormat env (m_format t);
            dataType = getDataType env (m_format t);
            success = (IsCompressed env t
                         \<or> \<not> texImageError env format (m_width t) (m_height t) (m_layers t));
            t3 = (if \<not> IsCompressed env t
                  then GL GetError
                         (GL (TexImage3D (m_target t) 0 format (m_width t) (m_height t) (m_layers t)
                                externalFormat dataType)
                            (GL GetError t2))
                  else t2);
            t4 = (if \<not> success then LOG (LOGERROR ''Failed to create texture array'') t3 else t3);
            levels = m_requestedLevels t;
            levels = (if levels = 0
                      then Create_levels (Max_int (m_width t) (m_height t)) levels
                      else levels);
            t5 = t4\<lparr>m_levels := levels\<rparr>;
            t6 = GL (TexParameteri (m_target t) GL_TEXTURE_BASE_LEVEL 0) t5;
            t7 = GL (TexParameteri (m_target t) GL_TEXTURE_MAX_LEVEL (levels - 1)) t6;
            t8 = GL UpdateParameters t7
        in (success, Graphics_SetTexture0 0 t8))"

text \<open>The loop of \<^verbatim>\<open>SetSize\<close> that clears the counters \<open>i, i + 1, ...\<close> below \<^verbatim>\<open>layers_\<close>.\<close>

function SetSize_clear :: "nat \<Rightarrow> nat \<Rightarrow> u32 list \<Rightarrow> u32 list" where
  "SetSize_clear i n xs = (if i < n then SetSize_clear (Suc i) n (xs[i := 0]) else xs)"
  by pat_completeness auto
termination
  by (relation "measure (\<lambda>(i, n, xs). n - i)") auto

declare SetSize_clear.simps [simp del]

text \<open>
  Modelled from the spec: \<^verbatim>\<open>Vector::Resize\<close>, of the container library, sets the size of
  the vector; the first elements are kept, new ones are appended.
\<close>

definition Resize :: "nat \<Rightarrow> u32 list \<Rightarrow> u32 list" where
  "Resize n xs = take n xs @ replicate (n - length xs) 0"

definition SetSize ::
  "'src env \<Rightarrow> u32 \<Rightarrow> s32 \<Rightarrow> s32 \<Rightarrow> u32 \<Rightarrow> textureUsage \<Rightarrow> texture2DArray \<Rightarrow> bool \<times> texture2DArray"
where
  "SetSize env layers width height format usage t =
     (if width \<le>s 0 \<or> height \<le>s 0 then
        (False, LOG (LOGERROR ''Zero or negative texture array size'') t)
      else if usage = TEXTURE_DEPTHSTENCIL then
        (False, LOG (LOGERROR ''Depth-stencil usage not supported for texture arrays'') t)
      else
        let t1 = t\<lparr>m_renderSurface := None, m_usage := usage\<rparr>;
            t2 = (if usage = TEXTURE_RENDERTARGET
                  then t1\<lparr>m_renderSurface := Some (newRenderSurface env),
                          m_filterMode := FILTER_NEAREST,
                          m_requestedLevels := 1\<rparr>
                  else t1);
            t3 = t2\<lparr>m_subscribedRenderSurfaceUpdate := (usage = TEXTURE_RENDERTARGET)\<rparr>;
            newLayers = (if layers \<noteq> 0 then layers else m_layers t);
            t4 = t3\<lparr>m_width := width, m_height := height, m_format := format,
                    m_layers := newLayers\<rparr>;
            t5 = t4\<lparr>m_layerMemoryUse :=
                        SetSize_clear 0 (unat newLayers)
                          (Resize (unat newLayers) (m_layerMemoryUse t))\<rparr>
        in Create env t5)"

section \<open>SetData on a region, GetData\<close>

text \<open>
  \<^verbatim>\<open>SetData(layer, level, x, y, width, height, data)\<close>. The sum \<^verbatim>\<open>x + width\<close> is the
  32-bit one.
\<close>

definition SetData_region ::
  "'src env \<Rightarrow> u32 \<Rightarrow> u32 \<Rightarrow> s32 \<Rightarrow> s32 \<Rightarrow> s32 \<Rightarrow> s32 \<Rightarrow> bytes option \<Rightarrow> texture2DArray
     \<Rightarrow> bool \<times> texture2DArray"
where
  "SetData_region env layer level x y width height data t =
     (if m_object_name t = 0 \<or> \<not> m_graphics t then
        (False, LOG (LOGERROR ''Texture array not created, can not set data'') t)
      else if data = None then
        (False, LOG (LOGERROR ''Null source for setting data'') t)
      else if m_layers t \<le> layer then
        (False, LOG (LOGERROR ''Illegal layer for setting data'') t)
      else if m_levels t \<le> level then
        (False, LOG (LOGERROR ''Illegal mip level for setting data'') t)
      else if gfx_deviceLost t then
        (True, (LOG (LOGWARNING ''Texture array data assignment while device is lost'') t)
                 \<lparr>m_dataPending := True\<rparr>)
      else
        let x = (if IsCompressed env t then x AND NOT 3 else x);
            y = (if IsCompressed env t then y AND NOT 3 else y);
            levelWidth = GetLevelWidth env t level;
            levelHeight = GetLevelHeight env t level
        in if x <s 0 \<or> levelWidth <s x + width \<or> y <s 0 \<or> levelHeight <s y + height
                \<or> width \<le>s 0 \<or> height \<le>s 0 then
             (False, LOG (LOGERROR ''Illegal dimensions for setting data'') t)
           else
             let t1 = Graphics_SetTextureForUpdate t;
                 wholeLevel = (x = 0 \<and> y = 0 \<and> width = levelWidth \<and> height = levelHeight
                                 \<and> layer = 0);
                 format = (if m_sRGB t then getSRGBFormat env (m_format t) else m_format t);
                 t2 = (if \<not> IsCompressed env t then
                         (if wholeLevel
                          then GL (TexImage3D (m_target t) level format width height (m_layers t)
                                     (getExternalFormat env (m_format t))
                                     (getDataType env (m_format t))) t1
                          else t1)
                       else
                         (if wholeLevel
                          then GL (CompressedTexImage3D (m_target t) level format width height
                                     (m_layers t)
                                     (getDataSize3 env (m_format t) width height (m_layers t))) t1
                          else t1));
                 t3 = (if \<not> IsCompressed env t then
                         GL (TexSubImage3D (m_target t) level x y layer width height 1
                               (getExternalFormat env (m_format t))
                               (getDataType env (m_format t)) data) t2
                       else
                         GL (CompressedTexSubImage3D (m_target t) level x y layer width height 1
                               format (getDataSize env (m_format t) width height) data) t2)
             in (True, Graphics_SetTexture0 0 t3))"

text \<open>\<^verbatim>\<open>GetData(layer, level, dest)\<close>; \<open>dest\<close> is the address written to, \<open>None\<close> when null.\<close>

definition GetData ::
  "'src env \<Rightarrow> u32 \<Rightarrow> u32 \<Rightarrow> nat option \<Rightarrow> texture2DArray \<Rightarrow> bool \<times> texture2DArray"
where
  "GetData env layer level dest t =
     (if m_object_name t = 0 \<or> \<not> m_graphics t then
        (False, LOG (LOGERROR ''Texture array not created, can not get data'') t)
      else if dest = None then
        (False, LOG (LOGERROR ''Null destination for getting data'') t)
      else if layer \<noteq> 0 then
        (False, LOG (LOGERROR ''Only the full download of the array is supported, set layer=0'') t)
      else if m_levels t \<le> level then
        (False, LOG (LOGERROR ''Illegal mip level for getting data'') t)
      else if gfx_deviceLost t then
        (False, LOG (LOGWARNING ''Getting texture data while device is lost'') t)
      else
        let t1 = Graphics_SetTextureForUpdate t;
            t2 = (if \<not> IsCompressed env t
                  then GL (GetTexImage (m_target t) level (getExternalFormat env (m_format t))
                             (getDataType env (m_format t))) t1
                  else GL (GetCompressedTexImage (m_target t) level) t1)
        in (True, Graphics_SetTexture0 0 t2))"

section \<open>SetData from an image\<close>

text \<open>
  The loop that discards mip levels of an uncompressed image: \<open>n\<close> times
  \<^verbatim>\<open>image = image->GetNextLevel()\<close>, then a read through the pointer.
\<close>

fun SetData_discard :: "'src env \<Rightarrow> nat \<Rightarrow> image \<Rightarrow> fault + image" where
  "SetData_discard env 0 img = Inr img"
| "SetData_discard env (Suc n) img =
     (case getNextLevel env img of
        None \<Rightarrow> Inl NullPointer
      | Some next \<Rightarrow> SetData_discard env n next)"

text \<open>The switch on the number of components.\<close>

definition SetData_format :: "'src env \<Rightarrow> u32 \<Rightarrow> bool \<Rightarrow> fault + u32" where
  "SetData_format env components useAlpha =
     (if components = 1 then Inr (if useAlpha then alphaFormat env else luminanceFormat env)
      else if components = 2 then Inr (luminanceAlphaFormat env)
      else if components = 3 then Inr (rgbFormat env)
      else if components = 4 then Inr (rgbaFormat env)
      else Inl AssertionFailed)"

text \<open>
  The checks of a layer other than 0, the same in both branches: the message of the
  check that fails, if one does.
\<close>

definition SetData_checkLayer :: "s32 \<Rightarrow> s32 \<Rightarrow> u32 \<Rightarrow> texture2DArray \<Rightarrow> logMessage option" where
  "SetData_checkLayer width height format t =
     (if m_object_name t = 0 then
        Some (LOGERROR ''Texture array layer 0 must be loaded first'')
      else if width \<noteq> m_width t \<or> height \<noteq> m_height t \<or> format \<noteq> m_format t then
        Some (LOGERROR ''Texture array layer does not match size or format of layer 0'')
      else None)"

text \<open>
  The upload loop of an uncompressed image, from level \<open>i\<close> on: the result is the
  memory use counted and the state.
\<close>

function SetData_levels ::
  "'src env \<Rightarrow> u32 \<Rightarrow> u32 \<Rightarrow> nat \<Rightarrow> image \<Rightarrow> u32 \<Rightarrow> texture2DArray \<Rightarrow> fault + (u32 \<times> texture2DArray)"
where
  "SetData_levels env layer components i img memoryUse t =
     (if i < unat (m_levels t) then
        let t' = snd (SetData_region env layer (of_nat i) 0 0 (img_width img) (img_height img)
                        (img_data img) t);
            memoryUse' = memoryUse + img_width img * img_height img * components
        in if (of_nat i :: u32) < m_levels t' - 1 then
             (case getNextLevel env img of
                None \<Rightarrow> Inl NullPointer
              | Some next \<Rightarrow> SetData_levels env layer components (Suc i) next memoryUse' t')
           else SetData_levels env layer components (Suc i) img memoryUse' t'
      else Inr (memoryUse, t))"
  by pat_completeness auto
termination
proof -
  have same: "m_levels (snd (SetData_region env layer level x y width height data t)) = m_levels t"
    for env :: "'src env" and layer level x y width height data t
    by (simp add: SetData_region_def Let_def LOG_def GL_def Graphics_SetTextureForUpdate_def
          Graphics_SetTexture0_def)
  show ?thesis
    by (relation "measure (\<lambda>(env, layer, components, i, img, memoryUse, t). unat (m_levels t) - i)")
       (simp_all add: same)
qed

declare SetData_levels.simps [simp del]

text \<open>
  The loop that lowers \<^verbatim>\<open>mipsToSkip\<close> of a compressed image:
  \<^verbatim>\<open>while (mipsToSkip && (width / (1 << mipsToSkip) < 4 || height / (1 << mipsToSkip) < 4)) --mipsToSkip;\<close>
\<close>

function SetData_lowerSkip :: "s32 \<Rightarrow> s32 \<Rightarrow> u32 \<Rightarrow> fault + u32" where
  "SetData_lowerSkip width height mipsToSkip =
     (if mipsToSkip \<noteq> 0 then
        if 32 \<le> unat mipsToSkip then Inl ShiftOutOfRange
        else if div_int width (push_bit (unat mipsToSkip) 1) <s 4
                \<or> div_int height (push_bit (unat mipsToSkip) 1) <s 4
        then SetData_lowerSkip width height (mipsToSkip - 1)
        else Inr mipsToSkip
      else Inr mipsToSkip)"
  by pat_completeness auto
termination
proof (relation "measure (\<lambda>(width, height, mipsToSkip). unat mipsToSkip)")
  show "wf (measure (\<lambda>(width :: s32, height :: s32, mipsToSkip :: u32). unat mipsToSkip))"
    by simp
next
  fix width height :: s32 and mipsToSkip :: u32
  assume "mipsToSkip \<noteq> 0"
  then have "unat (mipsToSkip - 1) < unat mipsToSkip"
    by (simp add: unat_minus_one unat_gt_0)
  then show "((width, height, mipsToSkip - 1), (width, height, mipsToSkip))
               \<in> measure (\<lambda>(width, height, mipsToSkip). unat mipsToSkip)"
    by simp
qed

declare SetData_lowerSkip.simps [simp del]

text \<open>
  The number of levels of a compressed image that are skipped, from the entry of the
  quality table: lines 463 to 467.
\<close>

definition SetData_mipsToSkip :: "s32 \<Rightarrow> s32 \<Rightarrow> u32 \<Rightarrow> u32 \<Rightarrow> fault + u32" where
  "SetData_mipsToSkip width height levels requested =
     SetData_lowerSkip width height (if levels \<le> requested then levels - 1 else requested)"

text \<open>The upload loop of a compressed image, from level \<open>i\<close> on.\<close>

function SetData_compressedLevels ::
  "'src env \<Rightarrow> u32 \<Rightarrow> image \<Rightarrow> u32 \<Rightarrow> u32 \<Rightarrow> bool \<Rightarrow> nat \<Rightarrow> u32 \<Rightarrow> texture2DArray
     \<Rightarrow> u32 \<times> texture2DArray"
where
  "SetData_compressedLevels env layer img levels mipsToSkip needDecompress i memoryUse t =
     (if i < unat (m_levels t) \<and> i < unat (levels - mipsToSkip) then
        let level = getCompressedLevel env img (of_nat i + mipsToSkip);
            t' = (if \<not> needDecompress
                  then snd (SetData_region env layer (of_nat i) 0 0 (cl_width level) (cl_height level)
                              (cl_data level) t)
                  else snd (SetData_region env layer (of_nat i) 0 0 (cl_width level) (cl_height level)
                              (Some (decompress env level)) t));
            memoryUse' = (if \<not> needDecompress
                          then memoryUse + cl_rows level * cl_rowSize level
                          else memoryUse + cl_width level * cl_height level * 4)
        in SetData_compressedLevels env layer img levels mipsToSkip needDecompress (Suc i)
             memoryUse' t'
      else (memoryUse, t))"
  by pat_completeness auto
termination
  by (relation "measure (\<lambda>(env, layer, img, levels, mipsToSkip, needDecompress, i, memoryUse, t).
                          unat (levels - mipsToSkip) - i)")
     auto

declare SetData_compressedLevels.simps [simp del]

text \<open>The loop that adds the counters \<open>i, i + 1, ...\<close> below \<^verbatim>\<open>layers_\<close> to the total.\<close>

function SetData_total :: "nat \<Rightarrow> nat \<Rightarrow> u32 list \<Rightarrow> u32 \<Rightarrow> fault + u32" where
  "SetData_total i n xs totalMemoryUse =
     (if i < n then
        if i < length xs then SetData_total (Suc i) n xs (totalMemoryUse + xs ! i)
        else Inl IndexOutOfRange
      else Inr totalMemoryUse)"
  by pat_completeness auto
termination
  by (relation "measure (\<lambda>(i, n, xs, totalMemoryUse). n - i)") auto

declare SetData_total.simps [simp del]

text \<open>The end of \<^verbatim>\<open>SetData\<close>, from \<^verbatim>\<open>layerMemoryUse_[layer] = memoryUse\<close> on.\<close>

definition SetData_finish ::
  "'src env \<Rightarrow> u32 \<Rightarrow> u32 \<Rightarrow> texture2DArray \<Rightarrow> fault + (bool \<times> texture2DArray)"
where
  "SetData_finish env layer memoryUse t =
     (if unat layer < length (m_layerMemoryUse t) then
        let t = t\<lparr>m_layerMemoryUse := (m_layerMemoryUse t)[unat layer := memoryUse]\<rparr> in
        case SetData_total 0 (unat (m_layers t)) (m_layerMemoryUse t)
               (sizeofTexture2DArray env + vectorCapacity env (m_layerMemoryUse t) * 4) of
          Inl f \<Rightarrow> Inl f
        | Inr totalMemoryUse \<Rightarrow> Inr (True, t\<lparr>m_memoryUse := totalMemoryUse\<rparr>)
      else Inl IndexOutOfRange)"

text \<open>
  The branch of an uncompressed image up to the checks of the layer: the image after the
  conversion and the discarded levels, its number of components and the format chosen;
  \<open>None\<close> where the code returns false.
\<close>

definition SetData_prepare ::
  "'src env \<Rightarrow> image \<Rightarrow> bool \<Rightarrow> quality \<Rightarrow> texture2DArray \<Rightarrow> fault + (image \<times> u32 \<times> u32) option"
where
  "SetData_prepare env img useAlpha quality t =
     (let components = img_components img;
          convert = (gl3Support env \<and> ((components = 1 \<and> \<not> useAlpha) \<or> components = 2))
      in case (if convert then convertToRGBA env img else Some img) of
           None \<Rightarrow> Inr None
         | Some img \<Rightarrow>
             (let components = (if convert then img_components img else components) in
              (case SetData_discard env (unat (m_mipsToSkip t quality)) img of
                 Inl f \<Rightarrow> Inl f
               | Inr img \<Rightarrow>
                   (case SetData_format env components useAlpha of
                      Inl f \<Rightarrow> Inl f
                    | Inr format \<Rightarrow> Inr (Some (img, components, format))))))"

text \<open>
  The branch of a compressed image up to the checks of the layer: width, height, number
  of levels, format, \<^verbatim>\<open>needDecompress\<close> and \<^verbatim>\<open>mipsToSkip\<close>.
\<close>

definition SetData_prepareCompressed ::
  "'src env \<Rightarrow> image \<Rightarrow> quality \<Rightarrow> texture2DArray
     \<Rightarrow> fault + (s32 \<times> s32 \<times> u32 \<times> u32 \<times> bool \<times> u32)"
where
  "SetData_prepareCompressed env img quality t =
     (if \<not> m_graphics t then Inl NullPointer
      else
        let levels = img_numCompressedLevels img;
            format = getFormat env (img_compressedFormat img);
            needDecompress = (format = 0);
            format = (if format = 0 then rgbaFormat env else format)
        in case SetData_mipsToSkip (img_width img) (img_height img) levels
                  (m_mipsToSkip t quality) of
             Inl f \<Rightarrow> Inl f
           | Inr mipsToSkip \<Rightarrow>
               Inr (div_int (img_width img) (push_bit (unat mipsToSkip) 1),
                    div_int (img_height img) (push_bit (unat mipsToSkip) 1),
                    levels, format, needDecompress, mipsToSkip))"

text \<open>\<^verbatim>\<open>SetData(layer, image, useAlpha)\<close>; a null image is \<open>None\<close>.\<close>

definition SetData_image ::
  "'src env \<Rightarrow> u32 \<Rightarrow> image option \<Rightarrow> bool \<Rightarrow> texture2DArray \<Rightarrow> fault + (bool \<times> texture2DArray)"
where
  "SetData_image env layer img useAlpha t =
     (case img of
        None \<Rightarrow> Inr (False, LOG (LOGERROR ''Null image, can not set data'') t)
      | Some img \<Rightarrow>
          if m_layers t = 0 then
            Inr (False, LOG (LOGERROR ''Number of layers in the array must be set first'') t)
          else if m_layers t \<le> layer then
            Inr (False, LOG (LOGERROR ''Illegal layer for setting data'') t)
          else
            let quality = (case textureQuality env of Some q \<Rightarrow> q | None \<Rightarrow> QUALITY_HIGH) in
            if \<not> img_compressed img then
              (case SetData_prepare env img useAlpha quality t of
                 Inl f \<Rightarrow> Inl f
               | Inr None \<Rightarrow> Inr (False, t)
               | Inr (Some (img, components, format)) \<Rightarrow>
                   (case (if layer = 0 then None
                          else SetData_checkLayer (img_width img) (img_height img) format t) of
                      Some message \<Rightarrow> Inr (False, LOG message t)
                    | None \<Rightarrow>
                        (let t = (if layer = 0 then
                                    snd (SetSize env 0 (img_width img) (img_height img) format
                                           TEXTURE_STATIC
                                           (if IsCompressed env t \<and> 1 < m_requestedLevels t
                                            then t\<lparr>m_requestedLevels := 0\<rparr> else t))
                                  else t)
                         in (case SetData_levels env layer components 0 img 0 t of
                               Inl f \<Rightarrow> Inl f
                             | Inr (memoryUse, t) \<Rightarrow> SetData_finish env layer memoryUse t))))
            else
              (case SetData_prepareCompressed env img quality t of
                 Inl f \<Rightarrow> Inl f
               | Inr (width, height, levels, format, needDecompress, mipsToSkip) \<Rightarrow>
                   (case (if layer = 0 then None else SetData_checkLayer width height format t) of
                      Some message \<Rightarrow> Inr (False, LOG message t)
                    | None \<Rightarrow>
                        (let t = (if layer = 0 then
                                    snd (SetSize env 0 width height format TEXTURE_STATIC
                                           (t\<lparr>m_requestedLevels :=
                                                setNumLevels env (Max_unsigned (levels - mipsToSkip) 1)
                                                  (m_usage t)\<rparr>))
                                  else t);
                             (memoryUse, t) =
                                SetData_compressedLevels env layer img levels mipsToSkip
                                  needDecompress 0 0 t
                         in SetData_finish env layer memoryUse t))))"

section \<open>BeginLoad, EndLoad, OnDeviceReset\<close>

text \<open>The loop of \<^verbatim>\<open>BeginLoad\<close> over the \<^verbatim>\<open>layer\<close> elements.\<close>

fun BeginLoad_layers :: "'src env \<Rightarrow> string \<Rightarrow> string list \<Rightarrow> texture2DArray \<Rightarrow> texture2DArray" where
  "BeginLoad_layers env texPath [] t = t"
| "BeginLoad_layers env texPath (name # names) t =
     (let name = (if getPath env name = [] then texPath @ name else name)
      in BeginLoad_layers env texPath names
           (t\<lparr>m_loadImages := m_loadImages t @ [getTempResource env name],
              cache_dependencies := cache_dependencies t @ [name]\<rparr>))"

definition BeginLoad :: "'src env \<Rightarrow> 'src \<Rightarrow> texture2DArray \<Rightarrow> bool \<times> texture2DArray" where
  "BeginLoad env source t =
     (if \<not> m_graphics t then (True, t)
      else if gfx_deviceLost t then
        (True, (LOG (LOGWARNING ''Texture load while device is lost'') t)\<lparr>m_dataPending := True\<rparr>)
      else
        let t = t\<lparr>cache_dependencies := []\<rparr>;
            texPath = fst (splitPath env (m_name t))
        in case loadXML env source of
             None \<Rightarrow> (False, t\<lparr>m_loadParameters := None\<rparr>)
           | Some xml \<Rightarrow>
               let t = t\<lparr>m_loadParameters := Some xml\<rparr>;
                   t = t\<lparr>m_loadImages := []\<rparr>;
                   t = BeginLoad_layers env texPath (xml_layers xml) t;
                   t = (if m_asyncLoadState t = ASYNC_LOADING
                        then t\<lparr>m_loadImages := map (map_option (precalculateLevels env))
                                                   (m_loadImages t)\<rparr>
                        else t)
               in (True, t))"

text \<open>
  The loop of \<^verbatim>\<open>EndLoad\<close> over the images of \<^verbatim>\<open>loadImages_\<close>, from index \<open>i\<close> on. The list
  is the rest of the vector as it is when the loop starts: \<^verbatim>\<open>SetData\<close> does not write
  \<^verbatim>\<open>loadImages_\<close>, which is proved below.
\<close>

fun EndLoad_layers ::
  "'src env \<Rightarrow> nat \<Rightarrow> image option list \<Rightarrow> texture2DArray \<Rightarrow> fault + texture2DArray"
where
  "EndLoad_layers env i [] t = Inr t"
| "EndLoad_layers env i (img # images) t =
     (case SetData_image env (of_nat i) img False t of
        Inl f \<Rightarrow> Inl f
      | Inr (success, t') \<Rightarrow> EndLoad_layers env (Suc i) images t')"

definition EndLoad :: "'src env \<Rightarrow> texture2DArray \<Rightarrow> fault + (bool \<times> texture2DArray)" where
  "EndLoad env t =
     (if \<not> m_graphics t \<or> gfx_deviceLost t then Inr (True, t)
      else
        let t = checkTextureBudget env t;
            t = setParameters env (m_loadParameters t) t;
            t = SetLayers env (of_nat (length (m_loadImages t))) t
        in case EndLoad_layers env 0 (m_loadImages t) t of
             Inl f \<Rightarrow> Inl f
           | Inr t \<Rightarrow> Inr (True, t\<lparr>m_loadImages := [], m_loadParameters := None\<rparr>))"



section \<open>Vocabulary of the claims\<close>

text \<open>
  The condition of the loop that lowers \<^verbatim>\<open>mipsToSkip\<close>: after that many levels are skipped
  the first level left is less than 4 texels wide or high.
\<close>

definition tooSmall :: "s32 \<Rightarrow> s32 \<Rightarrow> u32 \<Rightarrow> bool" where
  "tooSmall width height mipsToSkip =
     (div_int width (push_bit (unat mipsToSkip) 1) <s 4
      \<or> div_int height (push_bit (unat mipsToSkip) 1) <s 4)"

text \<open>
  The width, height and format that \<^verbatim>\<open>SetData(layer, image, useAlpha)\<close> compares with those
  of layer 0: of the image after the conversion and the skipped levels; \<open>None\<close> where the
  conversion fails.
\<close>

definition SetData_negotiated ::
  "'src env \<Rightarrow> image \<Rightarrow> bool \<Rightarrow> texture2DArray \<Rightarrow> fault + (s32 \<times> s32 \<times> u32) option"
where
  "SetData_negotiated env img useAlpha t =
     (let quality = (case textureQuality env of Some q \<Rightarrow> q | None \<Rightarrow> QUALITY_HIGH) in
      if \<not> img_compressed img then
        (case SetData_prepare env img useAlpha quality t of
           Inl f \<Rightarrow> Inl f
         | Inr None \<Rightarrow> Inr None
         | Inr (Some (img', components, format)) \<Rightarrow>
             Inr (Some (img_width img', img_height img', format)))
      else
        (case SetData_prepareCompressed env img quality t of
           Inl f \<Rightarrow> Inl f
         | Inr (width, height, levels, format, needDecompress, mipsToSkip) \<Rightarrow>
             Inr (Some (width, height, format))))"

text \<open>
  The data pointer that \<^verbatim>\<open>SetData(layer, image, useAlpha)\<close> hands to the upload of the first
  level: of the image after the conversion and the discarded levels, or of the first
  compressed level that is not skipped, decompressed where the format demands it.
\<close>

definition SetData_firstData :: "'src env \<Rightarrow> image \<Rightarrow> bool \<Rightarrow> texture2DArray \<Rightarrow> bytes option" where
  "SetData_firstData env img useAlpha t =
     (let quality = (case textureQuality env of Some q \<Rightarrow> q | None \<Rightarrow> QUALITY_HIGH) in
      if \<not> img_compressed img then
        (case SetData_prepare env img useAlpha quality t of
           Inr (Some (img', components, format)) \<Rightarrow> img_data img'
         | _ \<Rightarrow> None)
      else
        (case SetData_prepareCompressed env img quality t of
           Inr (width, height, levels, format, needDecompress, mipsToSkip) \<Rightarrow>
             (if \<not> needDecompress
              then cl_data (getCompressedLevel env img (0 + mipsToSkip))
              else Some (decompress env (getCompressedLevel env img (0 + mipsToSkip))))
         | Inl f \<Rightarrow> None))"

section \<open>A concrete environment and concrete objects\<close>

text \<open>
  An environment as on a desktop OpenGL 2 device: the S3TC formats are the compressed ones,
  a level is half the size of the one before and at least 1, the driver hands out the names
  1, 2, ... and reports an error for a texture wider or higher than 16384 texels or with
  more than 2048 layers. A source is the list of layer names of a descriptor; the cache
  holds a descriptor with no layers under every name.
\<close>

definition desktopEnv :: "string list env" where
  "desktopEnv =
     \<lparr>isCompressedFormat = (\<lambda>format. format = 0x83F1 \<or> format = 0x83F2 \<or> format = 0x83F3),
      getSRGBFormat = (\<lambda>format. format),
      getExternalFormat = (\<lambda>format. format),
      getDataType = (\<lambda>format. 0x1401),
      getDataSize = (\<lambda>format width height. width * height * 4),
      getDataSize3 = (\<lambda>format width height depth. depth * (width * height * 4)),
      getLevelSize = (\<lambda>levels size level.
         if levels < level then 0 else Max_int (signed_drop_bit (unat level) size) 1),
      genTexture = (\<lambda>k. of_nat k + 1),
      texImageError = (\<lambda>format width height depth.
         16384 <s width \<or> 16384 <s height \<or> 2048 < depth),
      rsRelease = (\<lambda>lost rs. rs\<lparr>rs_renderBuffer := 0\<rparr>),
      rsOnDeviceLost = (\<lambda>rs. rs\<lparr>rs_renderBuffer := 0\<rparr>),
      newRenderSurface =
        \<lparr>rs_renderBuffer = 0, rs_updateMode = SURFACE_UPDATEVISIBLE, rs_updateQueued = False\<rparr>,
      textureQuality = Some QUALITY_HIGH,
      gl3Support = False,
      alphaFormat = 0x1906,
      luminanceFormat = 0x1909,
      luminanceAlphaFormat = 0x190A,
      rgbFormat = 0x1907,
      rgbaFormat = 0x1908,
      getFormat = (\<lambda>cf. case cf of CF_DXT1 \<Rightarrow> 0x83F1 | CF_DXT3 \<Rightarrow> 0x83F2 | CF_DXT5 \<Rightarrow> 0x83F3
                              | _ \<Rightarrow> 0),
      convertToRGBA = (\<lambda>img. Some (img\<lparr>img_components := 4\<rparr>)),
      getNextLevel = (\<lambda>img.
         if img_compressed img then None
         else Some (img\<lparr>img_width := Max_int (div_int (img_width img) 2) 1,
                        img_height := Max_int (div_int (img_height img) 2) 1\<rparr>)),
      getCompressedLevel = (\<lambda>img i.
         \<lparr>cl_data = img_data img,
          cl_width = Max_int (signed_drop_bit (unat i) (img_width img)) 1,
          cl_height = Max_int (signed_drop_bit (unat i) (img_height img)) 1,
          cl_rowSize = 8, cl_rows = 1\<rparr>),
      decompress = (\<lambda>level. []),
      precalculateLevels = (\<lambda>img. img),
      loadXML = (\<lambda>source. Some \<lparr>xml_layers = source\<rparr>),
      splitPath = (\<lambda>name. ([], name, [])),
      getPath = (\<lambda>name. []),
      getTempResource = (\<lambda>name. None),
      checkTextureBudget = (\<lambda>t. t),
      setParameters = (\<lambda>xml t. t),
      cacheExists = (\<lambda>name. True),
      cacheGetFile = (\<lambda>name. Some []),
      setNumLevels = (\<lambda>levels usage. if usage = TEXTURE_DEPTHSTENCIL then 1 else levels),
      sizeofTexture2DArray = 256,
      vectorCapacity = (\<lambda>xs. of_nat (length xs))\<rparr>"

text \<open>The object after its constructor, on a live device with 16 texture units.\<close>

definition newTexture :: texture2DArray where
  "newTexture =
     \<lparr>m_name = ''Textures/Array.xml'', m_memoryUse = 0, m_asyncLoadState = ASYNC_DONE,
      m_graphics = True, m_object_name = 0, m_dataLost = False, m_dataPending = False,
      m_target = 0x8C1A, m_format = 0, m_usage = TEXTURE_STATIC, m_levels = 0,
      m_requestedLevels = 0, m_width = 0, m_height = 0, m_filterMode = FILTER_DEFAULT,
      m_sRGB = False,
      m_mipsToSkip = (\<lambda>q. case q of QUALITY_LOW \<Rightarrow> 2 | QUALITY_MEDIUM \<Rightarrow> 1 | QUALITY_HIGH \<Rightarrow> 0),
      m_layers = 0, m_renderSurface = None, m_layerMemoryUse = [], m_loadImages = [],
      m_loadParameters = None, m_subscribedRenderSurfaceUpdate = False,
      gfx_deviceLost = False,
      gfx_textures = [NoTexture, NoTexture, NoTexture, NoTexture, NoTexture, NoTexture, NoTexture,
                      NoTexture, NoTexture, NoTexture, NoTexture, NoTexture, NoTexture, NoTexture,
                      NoTexture, NoTexture],
      gfx_calls = [], gfx_generated = 0, cache_dependencies = [], m_log = []\<rparr>"

text \<open>An uncompressed image of four components.\<close>

definition rgbaImage :: "s32 \<Rightarrow> s32 \<Rightarrow> image" where
  "rgbaImage width height =
     \<lparr>img_compressed = False, img_components = 4, img_width = width, img_height = height,
      img_data = Some [], img_compressedFormat = CF_NONE, img_numCompressedLevels = 0\<rparr>"

text \<open>A new object sized to two layers of 2 by 2 texels in the RGBA format.\<close>

definition sizedTexture :: texture2DArray where
  "sizedTexture = snd (SetSize desktopEnv 2 2 2 0x1908 TEXTURE_STATIC newTexture)"

text \<open>The sized object while the device is lost.\<close>

definition lostTexture :: texture2DArray where
  "lostTexture = sizedTexture\<lparr>gfx_deviceLost := True\<rparr>"



text \<open>A new object with two layers and no size, while the device is lost.\<close>

definition lostUnsizedTexture :: texture2DArray where
  "lostUnsizedTexture = (SetLayers desktopEnv 2 newTexture)\<lparr>gfx_deviceLost := True\<rparr>"


section \<open>Properties of Release and Create\<close>

lemma Release_units_frame:
  "\<exists>tx cs. Release_units i t = t\<lparr>gfx_textures := tx, gfx_calls := cs\<rparr>"
proof (induction i t rule: Release_units.induct)
  case (1 i t)
  show ?case
  proof (cases "i < length (gfx_textures t)")
    case False
    then have "Release_units i t = t\<lparr>gfx_textures := gfx_textures t, gfx_calls := gfx_calls t\<rparr>"
      by (simp add: Release_units.simps [of i t])
    then show ?thesis by blast
  next
    case True
    let ?t' = "if gfx_textures t ! i = This then Graphics_SetTexture0 i t else t"
    from 1 True obtain tx cs where
      "Release_units (Suc i) ?t' = ?t'\<lparr>gfx_textures := tx, gfx_calls := cs\<rparr>"
      by blast
    with True have "Release_units i t = t\<lparr>gfx_textures := tx, gfx_calls := cs\<rparr>"
      by (simp add: Release_units.simps [of i t] Graphics_SetTexture0_def)
    then show ?thesis by blast
  qed
qed

lemma Release_noop: "m_object_name t = 0 \<or> \<not> m_graphics t \<Longrightarrow> Release env t = t"
  by (auto simp: Release_def)

lemma Release_shape:
  "m_object_name t \<noteq> 0 \<Longrightarrow> m_graphics t \<Longrightarrow>
   \<exists>tx cs rs. Release env t =
     t\<lparr>gfx_textures := tx, gfx_calls := cs, m_renderSurface := rs, m_object_name := 0\<rparr>"
proof -
  assume a: "m_object_name t \<noteq> 0" "m_graphics t"
  obtain tx cs where u: "Release_units 0 t = t\<lparr>gfx_textures := tx, gfx_calls := cs\<rparr>"
    using Release_units_frame by blast
  show ?thesis
  proof (cases "gfx_deviceLost t")
    case True
    with a have "Release env t =
       t\<lparr>gfx_textures := gfx_textures t, gfx_calls := gfx_calls t,
         m_renderSurface := (case m_renderSurface t of Some rs \<Rightarrow> Some (rsRelease env True rs) | None \<Rightarrow> None),
         m_object_name := 0\<rparr>"
      by (simp add: Release_def split: option.splits)
    then show ?thesis by blast
  next
    case False
    with a u have "Release env t =
       t\<lparr>gfx_textures := tx, gfx_calls := cs @ [DeleteTextures (m_object_name t)],
         m_renderSurface := (case m_renderSurface t of Some rs \<Rightarrow> Some (rsRelease env False rs) | None \<Rightarrow> None),
         m_object_name := 0\<rparr>"
      by (simp add: Release_def GL_def split: option.splits)
    then show ?thesis by blast
  qed
qed

lemma Release_frame:
  "\<exists>tx cs rs nm. Release env t =
     t\<lparr>gfx_textures := tx, gfx_calls := cs, m_renderSurface := rs, m_object_name := nm\<rparr>"
proof (cases "m_object_name t = 0 \<or> \<not> m_graphics t")
  case True
  then have "Release env t = t\<lparr>gfx_textures := gfx_textures t, gfx_calls := gfx_calls t,
      m_renderSurface := m_renderSurface t, m_object_name := m_object_name t\<rparr>"
    by (simp add: Release_noop)
  then show ?thesis by blast
next
  case False
  then show ?thesis using Release_shape [of t env] by blast
qed

lemma Create_frame:
  "\<exists>nm tx cs rs lv lg gen. snd (Create env t) =
     t\<lparr>m_object_name := nm, gfx_textures := tx, gfx_calls := cs, m_renderSurface := rs,
       m_levels := lv, m_log := lg, gfx_generated := gen\<rparr>"
proof -
  obtain tx cs rs nm where r: "Release env t =
     t\<lparr>gfx_textures := tx, gfx_calls := cs, m_renderSurface := rs, m_object_name := nm\<rparr>"
    using Release_frame by blast
  have "snd (Create env t) =
     t\<lparr>m_object_name := m_object_name (snd (Create env t)),
       gfx_textures := gfx_textures (snd (Create env t)),
       gfx_calls := gfx_calls (snd (Create env t)),
       m_renderSurface := m_renderSurface (snd (Create env t)),
       m_levels := m_levels (snd (Create env t)),
       m_log := m_log (snd (Create env t)),
       gfx_generated := gfx_generated (snd (Create env t))\<rparr>"
    unfolding Create_def Let_def r
    by (simp add: LOG_def GL_def Graphics_SetTextureForUpdate_def Graphics_SetTexture0_def
          IsCompressed_def)
  then show ?thesis by blast
qed

lemma Create_fields:
  "m_width (snd (Create env t)) = m_width t"
  "m_height (snd (Create env t)) = m_height t"
  "m_format (snd (Create env t)) = m_format t"
  "m_layers (snd (Create env t)) = m_layers t"
  "m_layerMemoryUse (snd (Create env t)) = m_layerMemoryUse t"
  "m_usage (snd (Create env t)) = m_usage t"
  "m_graphics (snd (Create env t)) = m_graphics t"
  "gfx_deviceLost (snd (Create env t)) = gfx_deviceLost t"
  "m_dataPending (snd (Create env t)) = m_dataPending t"
  "m_dataLost (snd (Create env t)) = m_dataLost t"
  "m_requestedLevels (snd (Create env t)) = m_requestedLevels t"
  "m_loadImages (snd (Create env t)) = m_loadImages t"
  "m_mipsToSkip (snd (Create env t)) = m_mipsToSkip t"
  using Create_frame [of env t] by auto

lemma Release_fields:
  "m_width (Release env t) = m_width t"
  "m_height (Release env t) = m_height t"
  "m_format (Release env t) = m_format t"
  "m_layers (Release env t) = m_layers t"
  "m_graphics (Release env t) = m_graphics t"
  "gfx_deviceLost (Release env t) = gfx_deviceLost t"
  "m_dataPending (Release env t) = m_dataPending t"
  "m_requestedLevels (Release env t) = m_requestedLevels t"
  "m_sRGB (Release env t) = m_sRGB t"
  "gfx_generated (Release env t) = gfx_generated t"
  "m_log (Release env t) = m_log t"
  "m_levels (Release env t) = m_levels t"
  using Release_frame [of env t] by auto

lemma Create_refuse:
  "\<not> m_graphics t \<or> m_width t = 0 \<or> m_height t = 0 \<or> m_layers t = 0 \<Longrightarrow>
   Create env t = (False, Release env t)"
  by (simp add: Create_def Let_def Release_fields)

lemma Create_lost:
  "m_graphics t \<Longrightarrow> m_width t \<noteq> 0 \<Longrightarrow> m_height t \<noteq> 0 \<Longrightarrow> m_layers t \<noteq> 0 \<Longrightarrow>
   gfx_deviceLost t \<Longrightarrow>
   Create env t =
     (True, LOG (LOGWARNING ''Texture array creation while device is lost'') (Release env t))"
  by (simp add: Create_def Let_def Release_fields)

lemma Create_live:
  assumes "m_graphics t" "m_width t \<noteq> 0" "m_height t \<noteq> 0" "m_layers t \<noteq> 0"
    "\<not> gfx_deviceLost t"
  shows "fst (Create env t) =
           (isCompressedFormat env (m_format t)
            \<or> \<not> texImageError env (if m_sRGB t then getSRGBFormat env (m_format t) else m_format t)
                  (m_width t) (m_height t) (m_layers t))"
    and "m_levels (snd (Create env t)) =
           (if m_requestedLevels t = 0
            then Create_levels (Max_int (m_width t) (m_height t)) 0
            else m_requestedLevels t)"
    and "m_object_name (snd (Create env t)) = genTexture env (gfx_generated t)"
  using assms
  by (simp_all add: Create_def Let_def Release_fields IsCompressed_def LOG_def GL_def
        Graphics_SetTextureForUpdate_def Graphics_SetTexture0_def)

lemma SetSize_clear_eq:
  "i \<le> n \<Longrightarrow> length xs = n \<Longrightarrow> SetSize_clear i n xs = take i xs @ replicate (n - i) 0"
proof (induction i n xs rule: SetSize_clear.induct)
  case (1 i n xs)
  show ?case
  proof (cases "i < n")
    case False
    then have "SetSize_clear i n xs = xs"
      by (simp add: SetSize_clear.simps [of i n xs])
    with False 1(2,3) show ?thesis by simp
  next
    case True
    with 1 have "SetSize_clear (Suc i) n (xs[i := 0])
                   = take (Suc i) (xs[i := 0]) @ replicate (n - Suc i) 0"
      by simp
    moreover from True 1 have "take (Suc i) (xs[i := 0]) = take i xs @ [0]"
      by (simp add: take_Suc_conv_app_nth)
    moreover from True have "replicate (n - i) (0 :: u32) = 0 # replicate (n - Suc i) 0"
      by (simp add: Suc_diff_Suc flip: replicate_Suc)
    ultimately show ?thesis using True
      by (simp add: SetSize_clear.simps [of i n xs])
  qed
qed

lemma length_Resize: "length (Resize n xs) = n"
  by (simp add: Resize_def)

lemma SetSize_clear_Resize: "SetSize_clear 0 n (Resize n xs) = replicate n 0"
  by (simp add: SetSize_clear_eq length_Resize)

lemma floorlog_half: "0 < n \<Longrightarrow> floorlog 2 n = Suc (floorlog 2 (n div 2))"
  using compute_floorlog [of 2 n] by simp

lemma floorlog_word_bound: "floorlog 2 (unat (m :: u32)) \<le> 32"
proof -
  have "unat m < 2 ^ 32"
    using unsigned_less [of m] by simp
  then show ?thesis
    by (simp add: floorlog_le_iff)
qed

lemma Create_levels_eq:
  "Create_levels maxSize levels = levels + of_nat (floorlog 2 (unat maxSize))"
proof (induction maxSize levels rule: Create_levels.induct)
  case (1 maxSize levels)
  show ?case
  proof (cases "maxSize = 0")
    case True
    then show ?thesis
      by (simp add: Create_levels.simps [of 0 levels] floorlog_def)
  next
    case False
    then have pos: "0 < unat maxSize"
      by (simp add: unat_gt_0)
    have "unat (drop_bit 1 maxSize) = unat maxSize div 2"
      by (simp add: drop_bit_eq_div unat_div)
    with 1 False have "Create_levels (drop_bit 1 maxSize) (levels + 1)
            = levels + 1 + of_nat (floorlog 2 (unat maxSize div 2))"
      by simp
    with False pos show ?thesis
      by (simp add: Create_levels.simps [of maxSize levels] floorlog_half)
  qed
qed

lemma positive_int_unat: "0 <s (w :: s32) \<Longrightarrow> int (unat w) = sint w"
proof -
  assume "0 <s w"
  then have "0 \<le> sint w" by (simp add: word_sless_alt)
  moreover have "sint w < 2 ^ 32"
    using sint_lt [of w] by simp
  ultimately have "take_bit 32 (sint w) = sint w"
    by (simp add: take_bit_int_eq_self)
  then have "uint w = sint w"
    using uint_sint [of w] by simp
  then show ?thesis by simp
qed

lemma Max_int_positive:
  assumes "0 <s w" "0 <s h"
  shows "unat (Max_int w h) = nat (max (sint w) (sint h))"
proof -
  have "0 <s Max_int w h" using assms by (simp add: Max_int_def)
  then have "int (unat (Max_int w h)) = sint (Max_int w h)" by (rule positive_int_unat)
  moreover have "sint (Max_int w h) = max (sint w) (sint h)"
    by (auto simp: Max_int_def word_sless_alt)
  ultimately show ?thesis by linarith
qed

section \<open>Properties of the device-lost paths and of SetData\<close>

lemma Release_lost:
  assumes "m_graphics t" "gfx_deviceLost t"
  shows "\<exists>rs. Release env t = t\<lparr>m_renderSurface := rs, m_object_name := 0\<rparr>"
proof (cases "m_object_name t = 0")
  case True
  then have "Release env t = t\<lparr>m_renderSurface := m_renderSurface t, m_object_name := 0\<rparr>"
    by (simp add: Release_def)
  then show ?thesis by blast
next
  case False
  with assms have "Release env t =
      t\<lparr>m_renderSurface := (case m_renderSurface t of Some rs \<Rightarrow> Some (rsRelease env True rs)
                                | None \<Rightarrow> None),
        m_object_name := 0\<rparr>"
    by (simp add: Release_def split: option.splits)
  then show ?thesis by blast
qed

lemma SetSize_lost:
  assumes "0 <s width" "0 <s height" "usage \<noteq> TEXTURE_DEPTHSTENCIL"
    and "m_graphics t" "gfx_deviceLost t"
    and "(if layers \<noteq> 0 then layers else m_layers t) \<noteq> 0"
  shows "fst (SetSize env layers width height format usage t)"
    and "m_object_name (snd (SetSize env layers width height format usage t)) = 0"
    and "m_dataPending (snd (SetSize env layers width height format usage t)) = m_dataPending t"
    and "gfx_calls (snd (SetSize env layers width height format usage t)) = gfx_calls t"
    and "m_graphics (snd (SetSize env layers width height format usage t))"
    and "gfx_deviceLost (snd (SetSize env layers width height format usage t))"
    and "m_layers (snd (SetSize env layers width height format usage t))
           = (if layers \<noteq> 0 then layers else m_layers t)"
    and "length (m_layerMemoryUse (snd (SetSize env layers width height format usage t)))
           = unat (if layers \<noteq> 0 then layers else m_layers t)"
proof -
  have v: "\<not> (width \<le>s 0 \<or> height \<le>s 0)" "width \<noteq> 0" "height \<noteq> 0"
    using assms(1,2) by (auto simp: word_sle_eq word_sless_alt)
  define t5 where "t5 =
    (let t1 = t\<lparr>m_renderSurface := None, m_usage := usage\<rparr>;
         t2 = (if usage = TEXTURE_RENDERTARGET
               then t1\<lparr>m_renderSurface := Some (newRenderSurface env),
                       m_filterMode := FILTER_NEAREST,
                       m_requestedLevels := 1\<rparr>
               else t1);
         t3 = t2\<lparr>m_subscribedRenderSurfaceUpdate := (usage = TEXTURE_RENDERTARGET)\<rparr>;
         newLayers = (if layers \<noteq> 0 then layers else m_layers t);
         t4 = t3\<lparr>m_width := width, m_height := height, m_format := format,
                 m_layers := newLayers\<rparr>
     in t4\<lparr>m_layerMemoryUse :=
              SetSize_clear 0 (unat newLayers) (Resize (unat newLayers) (m_layerMemoryUse t))\<rparr>)"
  have s: "SetSize env layers width height format usage t = Create env t5"
    using v assms(3) by (simp add: SetSize_def Let_def t5_def)
  have f: "m_graphics t5" "gfx_deviceLost t5" "m_width t5 \<noteq> 0" "m_height t5 \<noteq> 0"
    "m_layers t5 \<noteq> 0" "m_dataPending t5 = m_dataPending t" "gfx_calls t5 = gfx_calls t"
    "m_layers t5 = (if layers \<noteq> 0 then layers else m_layers t)"
    "length (m_layerMemoryUse t5) = unat (if layers \<noteq> 0 then layers else m_layers t)"
    using assms(4-) v by (simp_all add: t5_def Let_def SetSize_clear_Resize)
  obtain rs where r: "Release env t5 = t5\<lparr>m_renderSurface := rs, m_object_name := 0\<rparr>"
    using Release_lost [OF f(1,2)] by blast
  have c: "Create env t5 =
      (True, LOG (LOGWARNING ''Texture array creation while device is lost'') (Release env t5))"
    using f by (simp add: Create_lost)
  show "fst (SetSize env layers width height format usage t)"
    and "m_object_name (snd (SetSize env layers width height format usage t)) = 0"
    and "m_dataPending (snd (SetSize env layers width height format usage t)) = m_dataPending t"
    and "gfx_calls (snd (SetSize env layers width height format usage t)) = gfx_calls t"
    and "m_graphics (snd (SetSize env layers width height format usage t))"
    and "gfx_deviceLost (snd (SetSize env layers width height format usage t))"
    and "m_layers (snd (SetSize env layers width height format usage t))
           = (if layers \<noteq> 0 then layers else m_layers t)"
    and "length (m_layerMemoryUse (snd (SetSize env layers width height format usage t)))
           = unat (if layers \<noteq> 0 then layers else m_layers t)"
    using f by (simp_all add: s c r LOG_def)
qed

lemma SetData_region_no_object:
  "m_object_name t = 0 \<Longrightarrow>
   SetData_region env layer level x y width height data t
     = (False, LOG (LOGERROR ''Texture array not created, can not set data'') t)"
  by (simp add: SetData_region_def)

lemma SetData_levels_no_object:
  "m_object_name t = 0 \<Longrightarrow>
   SetData_levels env layer components i img memoryUse t = Inr (memoryUse', t') \<Longrightarrow>
   \<exists>lg. t' = t\<lparr>m_log := lg\<rparr>"
proof (induction env layer components i img memoryUse t arbitrary: memoryUse' t'
         rule: SetData_levels.induct)
  case (1 env layer components i img memoryUse t)
  let ?t1 = "LOG (LOGERROR ''Texture array not created, can not set data'') t"
  let ?m1 = "memoryUse + img_width img * img_height img * components"
  have reg: "snd (SetData_region env layer (of_nat i) 0 0 (img_width img) (img_height img)
               (img_data img) t) = ?t1"
    using "1.prems"(1) by (simp add: SetData_region_no_object)
  have name1: "m_object_name ?t1 = 0"
    using "1.prems"(1) by (simp add: LOG_def)
  show ?case
  proof (cases "i < unat (m_levels t)")
    case False
    with "1.prems"(2) have "t' = t\<lparr>m_log := m_log t\<rparr>"
      by (simp add: SetData_levels.simps [of env layer components i img memoryUse t])
    then show ?thesis by blast
  next
    case True
    show ?thesis
    proof (cases "(of_nat i :: u32) < m_levels ?t1 - 1")
      case more: True
      show ?thesis
      proof (cases "getNextLevel env img")
        case None
        with True more "1.prems"(2) reg show ?thesis
          by (simp add: SetData_levels.simps [of env layer components i img memoryUse t])
      next
        case (Some nextImg)
        with True more "1.prems"(2) reg
        have "SetData_levels env layer components (Suc i) nextImg ?m1 ?t1 = Inr (memoryUse', t')"
          by (simp add: SetData_levels.simps [of env layer components i img memoryUse t])
        with "1.IH"(1) [OF True reg [symmetric] refl _ Some name1] more reg
        obtain lg where "t' = ?t1\<lparr>m_log := lg\<rparr>"
          by auto
        then have "t' = t\<lparr>m_log := lg\<rparr>" by (simp add: LOG_def)
        then show ?thesis by blast
      qed
    next
      case nomore: False
      with True "1.prems"(2) reg
      have "SetData_levels env layer components (Suc i) img ?m1 ?t1 = Inr (memoryUse', t')"
        by (simp add: SetData_levels.simps [of env layer components i img memoryUse t])
      with "1.IH"(2) [OF True reg [symmetric] refl _ name1] nomore reg
      obtain lg where "t' = ?t1\<lparr>m_log := lg\<rparr>"
        by auto
      then have "t' = t\<lparr>m_log := lg\<rparr>" by (simp add: LOG_def)
      then show ?thesis by blast
    qed
  qed
qed

lemma SetData_compressedLevels_no_object:
  "m_object_name t = 0 \<Longrightarrow>
   \<exists>lg. snd (SetData_compressedLevels env layer img levels mipsToSkip needDecompress i memoryUse t)
          = t\<lparr>m_log := lg\<rparr>"
proof (induction env layer img levels mipsToSkip needDecompress i memoryUse t
         rule: SetData_compressedLevels.induct)
  case (1 env layer img levels mipsToSkip needDecompress i memoryUse t)
  let ?t1 = "LOG (LOGERROR ''Texture array not created, can not set data'') t"
  let ?level = "getCompressedLevel env img (of_nat i + mipsToSkip)"
  let ?m1 = "if \<not> needDecompress then memoryUse + cl_rows ?level * cl_rowSize ?level
             else memoryUse + cl_width ?level * cl_height ?level * 4"
  have name1: "m_object_name ?t1 = 0"
    using "1.prems" by (simp add: LOG_def)
  show ?case
  proof (cases "i < unat (m_levels t) \<and> i < unat (levels - mipsToSkip)")
    case False
    then have "snd (SetData_compressedLevels env layer img levels mipsToSkip needDecompress i
                      memoryUse t) = t\<lparr>m_log := m_log t\<rparr>"
      by (subst SetData_compressedLevels.simps) (simp only: if_False snd_conv, simp)
    then show ?thesis by blast
  next
    case True
    have step: "SetData_compressedLevels env layer img levels mipsToSkip needDecompress i memoryUse t
       = SetData_compressedLevels env layer img levels mipsToSkip needDecompress (Suc i) ?m1 ?t1"
      using True "1.prems"
      by (simp add: SetData_compressedLevels.simps
                      [of env layer img levels mipsToSkip needDecompress i memoryUse t]
            SetData_region_no_object Let_def)
    have "\<exists>lg. snd (SetData_compressedLevels env layer img levels mipsToSkip needDecompress (Suc i)
                       ?m1 ?t1) = ?t1\<lparr>m_log := lg\<rparr>"
      using "1.IH" [OF True refl _ refl name1] "1.prems"
      by (simp add: SetData_region_no_object)
    then obtain lg where
      "snd (SetData_compressedLevels env layer img levels mipsToSkip needDecompress (Suc i)
              ?m1 ?t1) = ?t1\<lparr>m_log := lg\<rparr>"
      by blast
    with step have "snd (SetData_compressedLevels env layer img levels mipsToSkip needDecompress i
                           memoryUse t) = t\<lparr>m_log := lg\<rparr>"
      by (simp add: LOG_def)
    then show ?thesis by blast
  qed
qed

lemma SetData_finish_result:
  "SetData_finish env layer memoryUse t = Inr (ok, t') \<Longrightarrow>
   ok \<and> (\<exists>xs mu. t' = t\<lparr>m_layerMemoryUse := xs, m_memoryUse := mu\<rparr>)"
  by (auto simp: SetData_finish_def Let_def split: if_splits sum.splits)

lemma SetData_region_loadImages:
  "m_loadImages (snd (SetData_region env layer level x y width height data t)) = m_loadImages t"
  by (simp add: SetData_region_def Let_def LOG_def GL_def Graphics_SetTextureForUpdate_def
        Graphics_SetTexture0_def)

lemma SetSize_loadImages:
  "m_loadImages (snd (SetSize env layers width height format usage t)) = m_loadImages t"
  by (simp add: SetSize_def Let_def LOG_def Create_fields)

lemma SetData_levels_loadImages:
  "SetData_levels env layer components i img memoryUse t = Inr (memoryUse', t') \<Longrightarrow>
   m_loadImages t' = m_loadImages t"
proof (induction env layer components i img memoryUse t arbitrary: memoryUse' t'
         rule: SetData_levels.induct)
  case (1 env layer components i img memoryUse t)
  let ?t1 = "snd (SetData_region env layer (of_nat i) 0 0 (img_width img) (img_height img)
                    (img_data img) t)"
  let ?m1 = "memoryUse + img_width img * img_height img * components"
  show ?case
  proof (cases "i < unat (m_levels t)")
    case False
    with "1.prems" show ?thesis
      by (simp add: SetData_levels.simps [of env layer components i img memoryUse t])
  next
    case True
    show ?thesis
    proof (cases "(of_nat i :: u32) < m_levels ?t1 - 1")
      case more: True
      show ?thesis
      proof (cases "getNextLevel env img")
        case None
        with True more "1.prems" show ?thesis
          by (simp add: SetData_levels.simps [of env layer components i img memoryUse t])
      next
        case (Some nextImg)
        with True more "1.prems"
        have "SetData_levels env layer components (Suc i) nextImg ?m1 ?t1 = Inr (memoryUse', t')"
          by (simp add: SetData_levels.simps [of env layer components i img memoryUse t])
        from "1.IH"(1) [OF True refl refl more Some this] show ?thesis
          by (simp add: SetData_region_loadImages)
      qed
    next
      case nomore: False
      with True "1.prems"
      have "SetData_levels env layer components (Suc i) img ?m1 ?t1 = Inr (memoryUse', t')"
        by (simp add: SetData_levels.simps [of env layer components i img memoryUse t])
      from "1.IH"(2) [OF True refl refl nomore this] show ?thesis
        by (simp add: SetData_region_loadImages)
    qed
  qed
qed

lemma SetData_compressedLevels_loadImages:
  "m_loadImages (snd (SetData_compressedLevels env layer img levels mipsToSkip needDecompress i
                        memoryUse t)) = m_loadImages t"
proof (induction env layer img levels mipsToSkip needDecompress i memoryUse t
         rule: SetData_compressedLevels.induct)
  case (1 env layer img levels mipsToSkip needDecompress i memoryUse t)
  show ?case
  proof (cases "i < unat (m_levels t) \<and> i < unat (levels - mipsToSkip)")
    case False
    then show ?thesis
      by (subst SetData_compressedLevels.simps) (simp only: if_False snd_conv)
  next
    case True
    then show ?thesis
      by (subst SetData_compressedLevels.simps)
         (simp add: Let_def "1.IH" [OF True refl refl refl] SetData_region_loadImages)
  qed
qed

lemma SetData_finish_loadImages:
  "SetData_finish env layer memoryUse t = Inr (ok, t') \<Longrightarrow> m_loadImages t' = m_loadImages t"
  using SetData_finish_result [of env layer memoryUse t ok t'] by auto

lemma SetData_image_loadImages:
  assumes "SetData_image env layer im useAlpha t = Inr (ok, t')"
  shows "m_loadImages t' = m_loadImages t"
proof (cases im)
  case None
  with assms show ?thesis
    by (auto simp: SetData_image_def LOG_def)
next
  case (Some img)
  let ?q = "case textureQuality env of Some q \<Rightarrow> q | None \<Rightarrow> QUALITY_HIGH"
  show ?thesis
  proof (cases "m_layers t = 0 \<or> m_layers t \<le> layer")
    case True
    show ?thesis
    proof (cases "m_layers t = 0")
      case True
      with assms Some show ?thesis
        by (auto simp: SetData_image_def LOG_def)
    next
      case False
      with True assms Some show ?thesis
        by (auto simp: SetData_image_def LOG_def)
    qed
  next
    case ok: False
    show ?thesis
    proof (cases "img_compressed img")
      case False
      show ?thesis
      proof (cases "SetData_prepare env img useAlpha ?q t")
        case (Inl f)
        with assms Some ok False show ?thesis
          by (simp add: SetData_image_def)
      next
        case (Inr p)
        show ?thesis
        proof (cases p)
          case None
          with assms Some ok False Inr show ?thesis
            by (auto simp: SetData_image_def)
        next
          case (Some icf)
          obtain img' components format where icf: "icf = (img', components, format)"
            by (cases icf) auto
          show ?thesis
          proof (cases "if layer = 0 then None
                        else SetData_checkLayer (img_width img') (img_height img') format t")
            case (Some message)
            with assms \<open>im = Some img\<close> ok False Inr \<open>p = Some icf\<close> icf show ?thesis
              by (auto simp: SetData_image_def LOG_def)
          next
            case None
            define t1 where "t1 = (if layer = 0 then
                                   snd (SetSize env 0 (img_width img') (img_height img') format
                                          TEXTURE_STATIC
                                          (if IsCompressed env t \<and> 1 < m_requestedLevels t
                                           then t\<lparr>m_requestedLevels := 0\<rparr> else t))
                                 else t)"
            have t1: "m_loadImages t1 = m_loadImages t"
              by (simp add: t1_def SetSize_loadImages)
            from assms \<open>im = Some img\<close> ok False Inr \<open>p = Some icf\<close> icf None
            have "(case SetData_levels env layer components 0 img' 0 t1 of
                     Inl f \<Rightarrow> Inl f
                   | Inr (memoryUse, t2) \<Rightarrow> SetData_finish env layer memoryUse t2) = Inr (ok, t')"
              by (simp add: SetData_image_def t1_def)
            then obtain memoryUse t2 where
              "SetData_levels env layer components 0 img' 0 t1 = Inr (memoryUse, t2)"
              "SetData_finish env layer memoryUse t2 = Inr (ok, t')"
              by (auto split: sum.splits)
            with t1 show ?thesis
              by (simp add: SetData_levels_loadImages SetData_finish_loadImages)
          qed
        qed
      qed
    next
      case True
      show ?thesis
      proof (cases "SetData_prepareCompressed env img ?q t")
        case (Inl f)
        with assms Some ok True show ?thesis
          by (simp add: SetData_image_def)
      next
        case (Inr p)
        obtain width height levels format needDecompress mipsToSkip where
          p: "p = (width, height, levels, format, needDecompress, mipsToSkip)"
          by (cases p) auto
        show ?thesis
        proof (cases "if layer = 0 then None else SetData_checkLayer width height format t")
          case (Some message)
          with assms \<open>im = Some img\<close> ok True Inr p show ?thesis
            by (auto simp: SetData_image_def LOG_def)
        next
          case None
          define t1 where "t1 = (if layer = 0 then
                                   snd (SetSize env 0 width height format TEXTURE_STATIC
                                          (t\<lparr>m_requestedLevels :=
                                                setNumLevels env (Max_unsigned (levels - mipsToSkip) 1)
                                                  (m_usage t)\<rparr>))
                                 else t)"
          have t1: "m_loadImages t1 = m_loadImages t"
            by (simp add: t1_def SetSize_loadImages)
          have "SetData_finish env layer
                  (fst (SetData_compressedLevels env layer img levels mipsToSkip needDecompress
                          0 0 t1))
                  (snd (SetData_compressedLevels env layer img levels mipsToSkip needDecompress
                          0 0 t1)) = Inr (ok, t')"
          proof (cases "layer = 0")
            case z: True
            with assms \<open>im = Some img\<close> ok True Inr p show ?thesis
              by (simp add: SetData_image_def t1_def Let_def split_def)
          next
            case nz: False
            with None have "SetData_checkLayer width height format t = None"
              by simp
            with nz assms \<open>im = Some img\<close> ok True Inr p show ?thesis
              by (simp add: SetData_image_def t1_def Let_def split_def)
          qed
          from SetData_finish_loadImages [OF this] t1 show ?thesis
            by (simp add: SetData_compressedLevels_loadImages)
        qed
      qed
    qed
  qed
qed

lemma SetData_image_lost:
  assumes "m_graphics t" "gfx_deviceLost t" "m_layers t \<noteq> 0"
    and neg: "SetData_negotiated env img useAlpha t = Inr (Some (width, height, format))"
    and pos: "0 <s width" "0 <s height"
    and ret: "SetData_image env 0 (Some img) useAlpha t = Inr (ok, t')"
  shows "ok \<and> m_dataPending t' = m_dataPending t \<and> m_object_name t' = 0
         \<and> gfx_calls t' = gfx_calls t"
proof -
  let ?q = "case textureQuality env of Some q \<Rightarrow> q | None \<Rightarrow> QUALITY_HIGH"
  have l: "\<not> m_layers t \<le> 0"
    using assms(3) by simp
  show ?thesis
  proof (cases "img_compressed img")
    case False
    from neg False obtain img' components where
      p: "SetData_prepare env img useAlpha ?q t = Inr (Some (img', components, format))"
        "img_width img' = width" "img_height img' = height"
      by (auto simp: SetData_negotiated_def split: sum.splits option.splits)
    define t0 where "t0 = (if IsCompressed env t \<and> 1 < m_requestedLevels t
                           then t\<lparr>m_requestedLevels := 0\<rparr> else t)"
    define t1 where "t1 = snd (SetSize env 0 width height format TEXTURE_STATIC t0)"
    have t0: "m_graphics t0" "gfx_deviceLost t0" "(if (0 :: u32) \<noteq> 0 then 0 else m_layers t0) \<noteq> 0"
      "m_dataPending t0 = m_dataPending t" "gfx_calls t0 = gfx_calls t"
      using assms(1-3) by (simp_all add: t0_def)
    have t1: "m_object_name t1 = 0" "m_dataPending t1 = m_dataPending t" "gfx_calls t1 = gfx_calls t"
      using SetSize_lost(2-4) [OF pos _ t0(1-3), of TEXTURE_STATIC env format] t0(4,5)
      by (simp_all add: t1_def)
    from ret False l assms(3) p
    have "(case SetData_levels env 0 components 0 img' 0 t1 of
             Inl f \<Rightarrow> Inl f
           | Inr (memoryUse, t2) \<Rightarrow> SetData_finish env 0 memoryUse t2) = Inr (ok, t')"
      by (simp add: SetData_image_def t1_def t0_def)
    then obtain memoryUse t2 where
      lv: "SetData_levels env 0 components 0 img' 0 t1 = Inr (memoryUse, t2)"
      and fin: "SetData_finish env 0 memoryUse t2 = Inr (ok, t')"
      by (auto split: sum.splits)
    from SetData_levels_no_object [OF t1(1) lv] obtain lg where "t2 = t1\<lparr>m_log := lg\<rparr>"
      by blast
    moreover from SetData_finish_result [OF fin] obtain xs mu where
      "ok" "t' = t2\<lparr>m_layerMemoryUse := xs, m_memoryUse := mu\<rparr>"
      by blast
    ultimately show ?thesis
      using t1 by simp
  next
    case True
    from neg True obtain levels needDecompress mipsToSkip where
      p: "SetData_prepareCompressed env img ?q t
            = Inr (width, height, levels, format, needDecompress, mipsToSkip)"
      by (auto simp: SetData_negotiated_def split: sum.splits)
    define t0 where "t0 = t\<lparr>m_requestedLevels :=
                               setNumLevels env (Max_unsigned (levels - mipsToSkip) 1) (m_usage t)\<rparr>"
    define t1 where "t1 = snd (SetSize env 0 width height format TEXTURE_STATIC t0)"
    have t0: "m_graphics t0" "gfx_deviceLost t0" "(if (0 :: u32) \<noteq> 0 then 0 else m_layers t0) \<noteq> 0"
      "m_dataPending t0 = m_dataPending t" "gfx_calls t0 = gfx_calls t"
      using assms(1-3) by (simp_all add: t0_def)
    have t1: "m_object_name t1 = 0" "m_dataPending t1 = m_dataPending t" "gfx_calls t1 = gfx_calls t"
      using SetSize_lost(2-4) [OF pos _ t0(1-3), of TEXTURE_STATIC env format] t0(4,5)
      by (simp_all add: t1_def)
    obtain lg where c: "snd (SetData_compressedLevels env 0 img levels mipsToSkip needDecompress
                               0 0 t1) = t1\<lparr>m_log := lg\<rparr>"
      using SetData_compressedLevels_no_object [OF t1(1)] by blast
    from ret True l assms(3) p
    have "SetData_finish env 0
            (fst (SetData_compressedLevels env 0 img levels mipsToSkip needDecompress 0 0 t1))
            (snd (SetData_compressedLevels env 0 img levels mipsToSkip needDecompress 0 0 t1))
          = Inr (ok, t')"
      by (simp add: SetData_image_def t1_def t0_def Let_def split_def)
    from SetData_finish_result [OF this] obtain xs mu where
      "ok" "t' = (snd (SetData_compressedLevels env 0 img levels mipsToSkip needDecompress 0 0 t1))
                   \<lparr>m_layerMemoryUse := xs, m_memoryUse := mu\<rparr>"
      by blast
    then show ?thesis
      using t1 c by simp
  qed
qed




lemma word_pred_cases:
  fixes k m :: u32
  assumes "m \<noteq> 0" "k \<le> m"
  shows "k \<le> m - 1 \<or> k = m"
proof -
  have "unat (m - 1) = unat m - 1"
    using assms(1) by (simp add: unat_minus_one)
  then show ?thesis
    using assms(2) by (auto simp: word_le_nat_alt word_unat_eq_iff)
qed

lemma word_pred_le:
  fixes r m :: u32
  assumes "m \<noteq> 0" "r \<le> m - 1"
  shows "r \<le> m" "r \<noteq> m"
proof -
  have "unat (m - 1) = unat m - 1" "0 < unat m"
    using assms(1) by (simp_all add: unat_minus_one unat_gt_0)
  then show "r \<le> m" "r \<noteq> m"
    using assms(2) by (auto simp: word_le_nat_alt)
qed

lemma SetData_lowerSkip_spec:
  "unat mipsToSkip < 32 \<Longrightarrow>
   \<exists>r. SetData_lowerSkip width height mipsToSkip = Inr r \<and> r \<le> mipsToSkip
       \<and> (r \<noteq> 0 \<longrightarrow> \<not> tooSmall width height r)
       \<and> (\<forall>k. r < k \<and> k \<le> mipsToSkip \<longrightarrow> tooSmall width height k)"
proof (induction width height mipsToSkip rule: SetData_lowerSkip.induct)
  case (1 width height mipsToSkip)
  show ?case
  proof (cases "mipsToSkip = 0")
    case True
    then have "SetData_lowerSkip width height mipsToSkip = Inr 0"
      by (simp add: SetData_lowerSkip.simps [of width height 0])
    with True show ?thesis by auto
  next
    case nz: False
    show ?thesis
    proof (cases "tooSmall width height mipsToSkip")
      case False
      with nz "1.prems" have "SetData_lowerSkip width height mipsToSkip = Inr mipsToSkip"
        by (simp add: SetData_lowerSkip.simps [of width height mipsToSkip] tooSmall_def)
      with False show ?thesis by auto
    next
      case True
      have less: "unat (mipsToSkip - 1) < 32"
        using nz "1.prems" by (simp add: unat_minus_one)
      from nz "1.prems" True
      have step: "SetData_lowerSkip width height mipsToSkip
                    = SetData_lowerSkip width height (mipsToSkip - 1)"
        by (auto simp: SetData_lowerSkip.simps [of width height mipsToSkip] tooSmall_def)
      from nz "1.prems" True less obtain r where
        r: "SetData_lowerSkip width height (mipsToSkip - 1) = Inr r" "r \<le> mipsToSkip - 1"
           "r \<noteq> 0 \<longrightarrow> \<not> tooSmall width height r"
           "\<forall>k. r < k \<and> k \<le> mipsToSkip - 1 \<longrightarrow> tooSmall width height k"
        using "1.IH" by (auto simp: tooSmall_def)
      have "\<forall>k. r < k \<and> k \<le> mipsToSkip \<longrightarrow> tooSmall width height k"
        using r(4) True word_pred_cases [OF nz] by blast
      with r step word_pred_le(1) [OF nz r(2)] show ?thesis
        by auto
    qed
  qed
qed

lemma SetData_image_checked:
  assumes "layer \<noteq> 0" "layer < m_layers t"
    and "SetData_negotiated env img useAlpha t = Inr (Some (width, height, format))"
    and "SetData_checkLayer width height format t = Some message"
  shows "SetData_image env layer (Some img) useAlpha t = Inr (False, LOG message t)"
proof -
  have l: "m_layers t \<noteq> 0" "\<not> m_layers t \<le> layer"
    using assms(2) by auto
  show ?thesis
  proof (cases "img_compressed img")
    case False
    with assms(3) obtain img' components where
      "SetData_prepare env img useAlpha
         (case textureQuality env of Some q \<Rightarrow> q | None \<Rightarrow> QUALITY_HIGH) t
       = Inr (Some (img', components, format))" "img_width img' = width" "img_height img' = height"
      by (auto simp: SetData_negotiated_def split: sum.splits option.splits)
    with False l assms(1,4) show ?thesis
      by (simp add: SetData_image_def)
  next
    case True
    with assms(3) obtain levels needDecompress mipsToSkip where
      "SetData_prepareCompressed env img
         (case textureQuality env of Some q \<Rightarrow> q | None \<Rightarrow> QUALITY_HIGH) t
       = Inr (width, height, levels, format, needDecompress, mipsToSkip)"
      by (auto simp: SetData_negotiated_def split: sum.splits)
    with True l assms(1,4) show ?thesis
      by (simp add: SetData_image_def)
  qed
qed

lemma SetData_region_lost:
  assumes "m_object_name t \<noteq> 0" "m_graphics t" "gfx_deviceLost t" "layer < m_layers t"
  shows "\<exists>lg dp. snd (SetData_region env layer level x y width height data t)
                    = t\<lparr>m_log := lg, m_dataPending := dp\<rparr> \<and> (m_dataPending t \<longrightarrow> dp)"
    and "data \<noteq> None \<Longrightarrow> level < m_levels t \<Longrightarrow>
         m_dataPending (snd (SetData_region env layer level x y width height data t))"
proof -
  have l: "\<not> m_layers t \<le> layer"
    using assms(4) by simp
  show "\<exists>lg dp. snd (SetData_region env layer level x y width height data t)
                    = t\<lparr>m_log := lg, m_dataPending := dp\<rparr> \<and> (m_dataPending t \<longrightarrow> dp)"
  proof (cases "data = None \<or> m_levels t \<le> level")
    case True
    then have "\<exists>m. snd (SetData_region env layer level x y width height data t) = LOG m t"
      using assms(1-3) l by (auto simp: SetData_region_def)
    then obtain m where "snd (SetData_region env layer level x y width height data t)
        = t\<lparr>m_log := m_log t @ [m], m_dataPending := m_dataPending t\<rparr>"
      by (auto simp: LOG_def)
    then show ?thesis by blast
  next
    case False
    then have "snd (SetData_region env layer level x y width height data t)
        = t\<lparr>m_log := m_log t
                 @ [LOGWARNING ''Texture array data assignment while device is lost''],
             m_dataPending := True\<rparr>"
      using assms(1-3) l by (auto simp: SetData_region_def LOG_def)
    then show ?thesis by blast
  qed
  show "m_dataPending (snd (SetData_region env layer level x y width height data t))"
    if "data \<noteq> None" "level < m_levels t"
    using that assms(1-3) l by (auto simp: SetData_region_def LOG_def not_le)
qed

lemma SetData_levels_lost:
  "m_object_name t \<noteq> 0 \<Longrightarrow> m_graphics t \<Longrightarrow> gfx_deviceLost t \<Longrightarrow> layer < m_layers t \<Longrightarrow>
   SetData_levels env layer components i img memoryUse t = Inr (memoryUse', t') \<Longrightarrow>
   \<exists>lg dp. t' = t\<lparr>m_log := lg, m_dataPending := dp\<rparr> \<and> (m_dataPending t \<longrightarrow> dp)"
proof (induction env layer components i img memoryUse t arbitrary: memoryUse' t'
         rule: SetData_levels.induct)
  case (1 env layer components i img memoryUse t)
  let ?t1 = "snd (SetData_region env layer (of_nat i) 0 0 (img_width img) (img_height img)
                    (img_data img) t)"
  let ?m1 = "memoryUse + img_width img * img_height img * components"
  from SetData_region_lost(1) [OF "1.prems"(1-4)] obtain lg1 dp1 where
    t1: "?t1 = t\<lparr>m_log := lg1, m_dataPending := dp1\<rparr>" "m_dataPending t \<longrightarrow> dp1"
    by blast
  have p1: "m_object_name ?t1 \<noteq> 0" "m_graphics ?t1" "gfx_deviceLost ?t1" "layer < m_layers ?t1"
    using "1.prems"(1-4) by (simp_all add: t1(1))
  show ?case
  proof (cases "i < unat (m_levels t)")
    case False
    with "1.prems"(5) have "t' = t\<lparr>m_log := m_log t, m_dataPending := m_dataPending t\<rparr>"
      by (simp add: SetData_levels.simps [of env layer components i img memoryUse t])
    then show ?thesis by blast
  next
    case True
    have rest: "\<exists>lg dp. t' = t\<lparr>m_log := lg, m_dataPending := dp\<rparr> \<and> (m_dataPending t \<longrightarrow> dp)"
      if "\<exists>lg dp. t' = ?t1\<lparr>m_log := lg, m_dataPending := dp\<rparr> \<and> (m_dataPending ?t1 \<longrightarrow> dp)"
    proof -
      from that obtain lg dp where
        "t' = ?t1\<lparr>m_log := lg, m_dataPending := dp\<rparr>" "m_dataPending ?t1 \<longrightarrow> dp"
        by blast
      with t1 have "t' = t\<lparr>m_log := lg, m_dataPending := dp\<rparr>" "m_dataPending t \<longrightarrow> dp"
        by simp_all
      then show ?thesis by blast
    qed
    show ?thesis
    proof (cases "(of_nat i :: u32) < m_levels ?t1 - 1")
      case more: True
      show ?thesis
      proof (cases "getNextLevel env img")
        case None
        with True more "1.prems"(5) show ?thesis
          by (simp add: SetData_levels.simps [of env layer components i img memoryUse t])
      next
        case (Some nextImg)
        with True more "1.prems"(5)
        have "SetData_levels env layer components (Suc i) nextImg ?m1 ?t1 = Inr (memoryUse', t')"
          by (simp add: SetData_levels.simps [of env layer components i img memoryUse t])
        from "1.IH"(1) [OF True refl refl more Some p1 this] show ?thesis
          by (rule rest)
      qed
    next
      case nomore: False
      with True "1.prems"(5)
      have "SetData_levels env layer components (Suc i) img ?m1 ?t1 = Inr (memoryUse', t')"
        by (simp add: SetData_levels.simps [of env layer components i img memoryUse t])
      from "1.IH"(2) [OF True refl refl nomore p1 this] show ?thesis
        by (rule rest)
    qed
  qed
qed

lemma SetData_levels_lost_first:
  assumes p: "m_object_name t \<noteq> 0" "m_graphics t" "gfx_deviceLost t" "layer < m_layers t"
    and "m_levels t \<noteq> 0" "img_data img \<noteq> None"
    and ret: "SetData_levels env layer components 0 img memoryUse t = Inr (memoryUse', t')"
  shows "m_dataPending t' \<and> gfx_calls t' = gfx_calls t"
proof -
  let ?t1 = "snd (SetData_region env layer 0 0 0 (img_width img) (img_height img)
                    (img_data img) t)"
  let ?m1 = "memoryUse + img_width img * img_height img * components"
  have pos: "0 < unat (m_levels t)" "(0 :: u32) < m_levels t"
    using assms(5) by (simp_all add: unat_gt_0 word_neq_0_conv)
  from SetData_region_lost(1) [OF p] obtain lg1 dp1 where
    t1: "?t1 = t\<lparr>m_log := lg1, m_dataPending := dp1\<rparr>"
    by blast
  have d1: "m_dataPending ?t1"
    using SetData_region_lost(2) [OF p assms(6), of 0 env 0 0 "img_width img" "img_height img"]
      pos(2) by simp
  have p1: "m_object_name ?t1 \<noteq> 0" "m_graphics ?t1" "gfx_deviceLost ?t1" "layer < m_layers ?t1"
    using p by (simp_all add: t1)
  have "\<exists>img2. SetData_levels env layer components (Suc 0) img2 ?m1 ?t1 = Inr (memoryUse', t')"
    using ret pos(1)
    by (auto simp: SetData_levels.simps [of env layer components 0 img memoryUse t] Let_def
             split: if_splits option.splits)
  then obtain img2 where
    "SetData_levels env layer components (Suc 0) img2 ?m1 ?t1 = Inr (memoryUse', t')"
    by blast
  from SetData_levels_lost [OF p1 this] d1 obtain lg dp where
    "t' = ?t1\<lparr>m_log := lg, m_dataPending := dp\<rparr>" "dp"
    by blast
  then show ?thesis
    by (simp add: t1)
qed

lemma SetData_compressedLevels_lost:
  "m_object_name t \<noteq> 0 \<Longrightarrow> m_graphics t \<Longrightarrow> gfx_deviceLost t \<Longrightarrow> layer < m_layers t \<Longrightarrow>
   \<exists>lg dp. snd (SetData_compressedLevels env layer img levels mipsToSkip needDecompress i
                  memoryUse t) = t\<lparr>m_log := lg, m_dataPending := dp\<rparr>
           \<and> (m_dataPending t \<longrightarrow> dp)"
proof (induction env layer img levels mipsToSkip needDecompress i memoryUse t
         rule: SetData_compressedLevels.induct)
  case (1 env layer img levels mipsToSkip needDecompress i memoryUse t)
  let ?level = "getCompressedLevel env img (of_nat i + mipsToSkip)"
  let ?t1 = "if \<not> needDecompress
             then snd (SetData_region env layer (of_nat i) 0 0 (cl_width ?level) (cl_height ?level)
                         (cl_data ?level) t)
             else snd (SetData_region env layer (of_nat i) 0 0 (cl_width ?level) (cl_height ?level)
                         (Some (decompress env ?level)) t)"
  let ?m1 = "if \<not> needDecompress then memoryUse + cl_rows ?level * cl_rowSize ?level
             else memoryUse + cl_width ?level * cl_height ?level * 4"
  have "\<exists>lg1 dp1. ?t1 = t\<lparr>m_log := lg1, m_dataPending := dp1\<rparr> \<and> (m_dataPending t \<longrightarrow> dp1)"
    using SetData_region_lost(1) [OF "1.prems"] by (cases needDecompress) simp_all
  then obtain lg1 dp1 where
    t1: "?t1 = t\<lparr>m_log := lg1, m_dataPending := dp1\<rparr>" "m_dataPending t \<longrightarrow> dp1"
    by blast
  have p1: "m_object_name ?t1 \<noteq> 0" "m_graphics ?t1" "gfx_deviceLost ?t1" "layer < m_layers ?t1"
    using "1.prems" by (simp_all only: t1(1)) simp_all
  show ?case
  proof (cases "i < unat (m_levels t) \<and> i < unat (levels - mipsToSkip)")
    case False
    then have "snd (SetData_compressedLevels env layer img levels mipsToSkip needDecompress i
                      memoryUse t) = t\<lparr>m_log := m_log t, m_dataPending := m_dataPending t\<rparr>"
      by (subst SetData_compressedLevels.simps) (simp only: if_False snd_conv, simp)
    then show ?thesis by blast
  next
    case True
    have step: "SetData_compressedLevels env layer img levels mipsToSkip needDecompress i memoryUse t
       = SetData_compressedLevels env layer img levels mipsToSkip needDecompress (Suc i) ?m1 ?t1"
      using True
      by (subst SetData_compressedLevels.simps) (simp add: Let_def)
    from "1.IH" [OF True refl refl refl p1] obtain lg dp where
      "snd (SetData_compressedLevels env layer img levels mipsToSkip needDecompress (Suc i)
              ?m1 ?t1) = ?t1\<lparr>m_log := lg, m_dataPending := dp\<rparr>" "m_dataPending ?t1 \<longrightarrow> dp"
      by blast
    with t1 have "snd (SetData_compressedLevels env layer img levels mipsToSkip needDecompress i
                         memoryUse t) = t\<lparr>m_log := lg, m_dataPending := dp\<rparr>"
      "m_dataPending t \<longrightarrow> dp"
      by (simp_all only: step) simp_all
    then show ?thesis by blast
  qed
qed

lemma SetData_compressedLevels_lost_first:
  assumes p: "m_object_name t \<noteq> 0" "m_graphics t" "gfx_deviceLost t" "layer < m_layers t"
    and "m_levels t \<noteq> 0" "levels - mipsToSkip \<noteq> 0"
    and "(if \<not> needDecompress
          then cl_data (getCompressedLevel env img (0 + mipsToSkip))
          else Some (decompress env (getCompressedLevel env img (0 + mipsToSkip)))) \<noteq> None"
  shows "m_dataPending (snd (SetData_compressedLevels env layer img levels mipsToSkip
                               needDecompress 0 memoryUse t))
         \<and> gfx_calls (snd (SetData_compressedLevels env layer img levels mipsToSkip
                               needDecompress 0 memoryUse t)) = gfx_calls t"
proof -
  define level where "level = getCompressedLevel env img mipsToSkip"
  define data where "data = (if \<not> needDecompress then cl_data level
                             else Some (decompress env level))"
  define t1 where "t1 = snd (SetData_region env layer 0 0 0 (cl_width level) (cl_height level)
                               data t)"
  define m1 where "m1 = (if \<not> needDecompress then memoryUse + cl_rows level * cl_rowSize level
                         else memoryUse + cl_width level * cl_height level * 4)"
  have pos: "0 < unat (m_levels t)" "(0 :: u32) < m_levels t" "0 < unat (levels - mipsToSkip)"
    using assms(5,6) by (simp_all add: unat_gt_0 word_neq_0_conv)
  have dat: "data \<noteq> None"
    using assms(7) by (auto simp: data_def level_def split: if_splits)
  from SetData_region_lost(1) [OF p] obtain lg1 dp1 where
    t1: "t1 = t\<lparr>m_log := lg1, m_dataPending := dp1\<rparr>"
    unfolding t1_def by blast
  have d1: "m_dataPending t1"
    unfolding t1_def using SetData_region_lost(2) [OF p dat pos(2)] .
  have p1: "m_object_name t1 \<noteq> 0" "m_graphics t1" "gfx_deviceLost t1" "layer < m_layers t1"
    using p by (simp_all add: t1)
  have "SetData_compressedLevels env layer img levels mipsToSkip needDecompress 0 memoryUse t
       = SetData_compressedLevels env layer img levels mipsToSkip needDecompress (Suc 0)
           (if \<not> needDecompress
            then memoryUse + cl_rows (getCompressedLevel env img (of_nat 0 + mipsToSkip))
                               * cl_rowSize (getCompressedLevel env img (of_nat 0 + mipsToSkip))
            else memoryUse + cl_width (getCompressedLevel env img (of_nat 0 + mipsToSkip))
                               * cl_height (getCompressedLevel env img (of_nat 0 + mipsToSkip)) * 4)
           (if \<not> needDecompress
            then snd (SetData_region env layer (of_nat 0) 0 0
                        (cl_width (getCompressedLevel env img (of_nat 0 + mipsToSkip)))
                        (cl_height (getCompressedLevel env img (of_nat 0 + mipsToSkip)))
                        (cl_data (getCompressedLevel env img (of_nat 0 + mipsToSkip))) t)
            else snd (SetData_region env layer (of_nat 0) 0 0
                        (cl_width (getCompressedLevel env img (of_nat 0 + mipsToSkip)))
                        (cl_height (getCompressedLevel env img (of_nat 0 + mipsToSkip)))
                        (Some (decompress env (getCompressedLevel env img (of_nat 0 + mipsToSkip))))
                        t))"
    using pos(1,3)
    by (subst SetData_compressedLevels.simps) (simp only: Let_def simp_thms if_True)
  also have "\<dots> = SetData_compressedLevels env layer img levels mipsToSkip needDecompress (Suc 0)
                     m1 t1"
    by (cases needDecompress) (simp_all add: m1_def t1_def data_def level_def)
  finally have step:
    "SetData_compressedLevels env layer img levels mipsToSkip needDecompress 0 memoryUse t
       = SetData_compressedLevels env layer img levels mipsToSkip needDecompress (Suc 0) m1 t1" .
  from SetData_compressedLevels_lost [OF p1] d1 obtain lg dp where
    "snd (SetData_compressedLevels env layer img levels mipsToSkip needDecompress (Suc 0) m1 t1)
       = t1\<lparr>m_log := lg, m_dataPending := dp\<rparr>" "dp"
    by blast
  then show ?thesis
    by (simp only: step) (simp add: t1)
qed

lemma SetData_lowerSkip_le:
  "SetData_lowerSkip width height mipsToSkip = Inr r \<Longrightarrow> r \<le> mipsToSkip"
proof (induction width height mipsToSkip rule: SetData_lowerSkip.induct)
  case (1 width height mipsToSkip)
  show ?case
  proof (cases "mipsToSkip = 0")
    case True
    with "1.prems" show ?thesis
      by (simp add: SetData_lowerSkip.simps [of width height 0])
  next
    case nz: False
    show ?thesis
    proof (cases "32 \<le> unat mipsToSkip")
      case True
      with nz "1.prems" show ?thesis
        by (simp add: SetData_lowerSkip.simps [of width height mipsToSkip])
    next
      case small: False
      show ?thesis
      proof (cases "tooSmall width height mipsToSkip")
        case False
        with nz small "1.prems" show ?thesis
          by (simp add: SetData_lowerSkip.simps [of width height mipsToSkip] tooSmall_def)
      next
        case True
        with nz small "1.prems"
        have "SetData_lowerSkip width height (mipsToSkip - 1) = Inr r"
          by (auto simp: SetData_lowerSkip.simps [of width height mipsToSkip] tooSmall_def)
        with "1.IH" nz small True have "r \<le> mipsToSkip - 1"
          by (auto simp: tooSmall_def)
        then show ?thesis
          by (rule word_pred_le(1) [OF nz])
      qed
    qed
  qed
qed

lemma SetData_mipsToSkip_less:
  assumes "SetData_mipsToSkip width height levels requested = Inr r"
  shows "levels - r \<noteq> 0"
proof -
  let ?start = "if levels \<le> requested then levels - 1 else requested"
  from assms have low: "SetData_lowerSkip width height ?start = Inr r"
    by (simp add: SetData_mipsToSkip_def)
  have nz: "levels \<noteq> 0"
  proof
    assume z: "levels = 0"
    have "(- 1 :: u32) \<noteq> 0" "32 \<le> unat (- 1 :: u32)"
      by (simp_all add: unsigned_minus_1_eq_mask mask_eq_exp_minus_1)
    then have "SetData_lowerSkip width height (- 1) = Inl ShiftOutOfRange"
      by (subst SetData_lowerSkip.simps) simp
    with low z show False
      by simp
  qed
  have pred: "unat (levels - 1) = unat levels - 1" "0 < unat levels"
    using nz by (simp_all add: unat_minus_one unat_gt_0)
  have "?start \<le> levels - 1"
    using pred by (auto simp: word_le_nat_alt)
  with SetData_lowerSkip_le [OF low] have "r \<le> levels - 1"
    by (rule order_trans)
  then have "r \<noteq> levels"
    by (rule word_pred_le(2) [OF nz])
  then show ?thesis
    by simp
qed

lemma SetData_image_lost_layer:
  assumes p: "m_object_name t \<noteq> 0" "m_graphics t" "gfx_deviceLost t" "layer < m_layers t"
    and "layer \<noteq> 0" "m_levels t \<noteq> 0"
    and neg: "SetData_negotiated env img useAlpha t = Inr (Some (m_width t, m_height t, m_format t))"
    and dat: "SetData_firstData env img useAlpha t \<noteq> None"
    and ret: "SetData_image env layer (Some img) useAlpha t = Inr (ok, t')"
  shows "ok \<and> m_dataPending t' \<and> gfx_calls t' = gfx_calls t"
proof -
  let ?q = "case textureQuality env of Some q \<Rightarrow> q | None \<Rightarrow> QUALITY_HIGH"
  have l: "m_layers t \<noteq> 0" "\<not> m_layers t \<le> layer"
    using p(4) by auto
  have chk: "SetData_checkLayer (m_width t) (m_height t) (m_format t) t = None"
    using p(1) by (simp add: SetData_checkLayer_def)
  show ?thesis
  proof (cases "img_compressed img")
    case False
    from neg False obtain img' components where
      pr: "SetData_prepare env img useAlpha ?q t = Inr (Some (img', components, m_format t))"
        "img_width img' = m_width t" "img_height img' = m_height t"
      by (auto simp: SetData_negotiated_def split: sum.splits option.splits)
    from dat False pr have d: "img_data img' \<noteq> None"
      by (simp add: SetData_firstData_def)
    from ret False l assms(5) pr chk
    have "(case SetData_levels env layer components 0 img' 0 t of
             Inl f \<Rightarrow> Inl f
           | Inr (memoryUse, t2) \<Rightarrow> SetData_finish env layer memoryUse t2) = Inr (ok, t')"
      by (simp add: SetData_image_def)
    then obtain memoryUse t2 where
      lv: "SetData_levels env layer components 0 img' 0 t = Inr (memoryUse, t2)"
      and fin: "SetData_finish env layer memoryUse t2 = Inr (ok, t')"
      by (auto split: sum.splits)
    from SetData_levels_lost_first [OF p assms(6) d lv]
    have "m_dataPending t2" "gfx_calls t2 = gfx_calls t"
      by simp_all
    moreover from SetData_finish_result [OF fin] obtain xs mu where
      "ok" "t' = t2\<lparr>m_layerMemoryUse := xs, m_memoryUse := mu\<rparr>"
      by blast
    ultimately show ?thesis
      by simp
  next
    case True
    from neg True obtain levels needDecompress mipsToSkip where
      pr: "SetData_prepareCompressed env img ?q t
            = Inr (m_width t, m_height t, levels, m_format t, needDecompress, mipsToSkip)"
      by (auto simp: SetData_negotiated_def split: sum.splits)
    from dat True pr
    have d: "(if \<not> needDecompress
              then cl_data (getCompressedLevel env img (0 + mipsToSkip))
              else Some (decompress env (getCompressedLevel env img (0 + mipsToSkip)))) \<noteq> None"
      by (simp add: SetData_firstData_def)
    from pr have "SetData_mipsToSkip (img_width img) (img_height img) levels
                    (m_mipsToSkip t ?q) = Inr mipsToSkip"
      by (auto simp: SetData_prepareCompressed_def Let_def split: if_splits sum.splits)
    then have nz: "levels - mipsToSkip \<noteq> 0"
      by (rule SetData_mipsToSkip_less)
    from ret True l assms(5) pr chk
    have "SetData_finish env layer
            (fst (SetData_compressedLevels env layer img levels mipsToSkip needDecompress 0 0 t))
            (snd (SetData_compressedLevels env layer img levels mipsToSkip needDecompress 0 0 t))
          = Inr (ok, t')"
      by (simp add: SetData_image_def Let_def split_def)
    from SetData_finish_result [OF this] obtain xs mu where
      "ok" "t' = (snd (SetData_compressedLevels env layer img levels mipsToSkip needDecompress 0 0 t))
                   \<lparr>m_layerMemoryUse := xs, m_memoryUse := mu\<rparr>"
      by blast
    with SetData_compressedLevels_lost_first [OF p assms(6) nz d, of 0] show ?thesis
      by simp
  qed
qed

section \<open>The claims\<close>

text \<open>
  C1 (as amended). \<^verbatim>\<open>SetSize\<close> with positive width and height and a usage other than
  depth-stencil, on a live device that is not lost, with a layer count that is not zero
  after the call, returns success when the format is compressed or the driver reports no
  error for the allocation of level 0. The width, height and format of the object are then
  the arguments, and its layer count is the argument \<open>layers\<close> when that is not zero, the
  count stored before otherwise.
\<close>

theorem SetSize_succeeds:
  assumes "0 <s width" "0 <s height" "usage \<noteq> TEXTURE_DEPTHSTENCIL"
    and "m_graphics t" "\<not> gfx_deviceLost t"
    and "(if layers \<noteq> 0 then layers else m_layers t) \<noteq> 0"
    and "isCompressedFormat env format
         \<or> \<not> texImageError env (if m_sRGB t then getSRGBFormat env format else format)
               width height (if layers \<noteq> 0 then layers else m_layers t)"
  shows "fst (SetSize env layers width height format usage t)
         \<and> m_width (snd (SetSize env layers width height format usage t)) = width
         \<and> m_height (snd (SetSize env layers width height format usage t)) = height
         \<and> m_format (snd (SetSize env layers width height format usage t)) = format
         \<and> m_layers (snd (SetSize env layers width height format usage t))
             = (if layers \<noteq> 0 then layers else m_layers t)"
proof -
  have v: "\<not> (width \<le>s 0 \<or> height \<le>s 0)" "width \<noteq> 0" "height \<noteq> 0"
    using assms(1,2) by (auto simp: word_sle_eq word_sless_alt)
  show ?thesis
    using v assms(3-)
    by (auto simp: SetSize_def Let_def Create_fields Create_live split: if_splits)
qed

theorem SetSize_succeeds_witness:
  "0 <s (2 :: s32) \<and> m_graphics newTexture \<and> \<not> gfx_deviceLost newTexture
   \<and> fst (SetSize desktopEnv 2 2 2 0x1908 TEXTURE_STATIC newTexture)
   \<and> m_width (snd (SetSize desktopEnv 2 2 2 0x1908 TEXTURE_STATIC newTexture)) = 2
   \<and> m_height (snd (SetSize desktopEnv 2 2 2 0x1908 TEXTURE_STATIC newTexture)) = 2
   \<and> m_format (snd (SetSize desktopEnv 2 2 2 0x1908 TEXTURE_STATIC newTexture)) = 0x1908
   \<and> m_layers (snd (SetSize desktopEnv 2 2 2 0x1908 TEXTURE_STATIC newTexture)) = 2"
  using SetSize_succeeds [of 2 2 TEXTURE_STATIC newTexture 2 desktopEnv "0x1908"]
  by (simp add: newTexture_def desktopEnv_def word_sless_alt word_sle_eq)

text \<open>
  The claim as written fails twice: a width of 32768 is refused by the driver and the call
  returns failure; and with \<open>layers = 0\<close> on an object of three layers the call succeeds
  and the layer count is 3, not the argument.
\<close>

theorem SetSize_succeeds_counterexample:
  "0 <s (32768 :: s32) \<and> 0 <s (2 :: s32) \<and> m_graphics newTexture \<and> \<not> gfx_deviceLost newTexture
   \<and> \<not> fst (SetSize desktopEnv 1 32768 2 0x1908 TEXTURE_STATIC newTexture)
   \<and> fst (SetSize desktopEnv 0 2 2 0x1908 TEXTURE_STATIC (SetLayers desktopEnv 3 newTexture))
   \<and> m_layers (snd (SetSize desktopEnv 0 2 2 0x1908 TEXTURE_STATIC
                        (SetLayers desktopEnv 3 newTexture))) = 3"
  by code_simp




text \<open>
  C3 (as amended). On a lost device, with a graphics subsystem: \<^verbatim>\<open>BeginLoad\<close> and, with
  arguments that pass its checks, \<^verbatim>\<open>SetData\<close> on a region return success and set
  \<^verbatim>\<open>dataPending_\<close>; \<^verbatim>\<open>EndLoad\<close> returns success and changes nothing; \<^verbatim>\<open>SetSize\<close> with valid
  arguments returns success, leaves \<^verbatim>\<open>dataPending_\<close> as it was and the object without GPU
  object; \<^verbatim>\<open>GetData\<close> with arguments that pass its checks returns failure and changes the
  log only. \<^verbatim>\<open>SetData\<close> of an image, when the conversion and the skipping of its levels
  succeed: to layer 0 of an object whose layer count is not 0, the image being of positive
  width and height, the call, when it returns, returns success and leaves \<^verbatim>\<open>dataPending_\<close>
  as it was and the object without GPU object; to a layer other than 0 and below the layer
  count of an object with a GPU object and at least one level, the image being of the size
  and format of the object and the data of its first level not null, the call, when it
  returns, returns success, sets \<^verbatim>\<open>dataPending_\<close> and issues no call to the GPU; to a layer
  other than 0 and below the layer count of an object without GPU object, the call returns
  failure with the message that layer 0 must be loaded first.
\<close>

theorem device_lost_operations:
  assumes "m_graphics t" "gfx_deviceLost t"
  shows "BeginLoad env source t
           = (True, (LOG (LOGWARNING ''Texture load while device is lost'') t)\<lparr>m_dataPending := True\<rparr>)
     \<and> EndLoad env t = Inr (True, t)
     \<and> (m_object_name t \<noteq> 0 \<and> data \<noteq> None \<and> layer < m_layers t \<and> level < m_levels t \<longrightarrow>
          SetData_region env layer level x y width height data t
            = (True, (LOG (LOGWARNING ''Texture array data assignment while device is lost'') t)
                       \<lparr>m_dataPending := True\<rparr>))
     \<and> (0 <s width \<and> 0 <s height \<and> usage \<noteq> TEXTURE_DEPTHSTENCIL
          \<and> (if layers \<noteq> 0 then layers else m_layers t) \<noteq> 0 \<longrightarrow>
          fst (SetSize env layers width height format usage t)
          \<and> m_dataPending (snd (SetSize env layers width height format usage t)) = m_dataPending t
          \<and> m_object_name (snd (SetSize env layers width height format usage t)) = 0)
     \<and> (m_object_name t \<noteq> 0 \<and> dest \<noteq> None \<and> level < m_levels t \<longrightarrow>
          GetData env 0 level dest t
            = (False, LOG (LOGWARNING ''Getting texture data while device is lost'') t))
     \<and> (m_layers t \<noteq> 0
          \<and> SetData_negotiated env img useAlpha t = Inr (Some (imgWidth, imgHeight, imgFormat))
          \<and> 0 <s imgWidth \<and> 0 <s imgHeight
          \<and> SetData_image env 0 (Some img) useAlpha t = Inr (ok, t') \<longrightarrow>
          ok \<and> m_dataPending t' = m_dataPending t \<and> m_object_name t' = 0)
     \<and> (imgLayer \<noteq> 0 \<and> imgLayer < m_layers t \<and> m_object_name t \<noteq> 0 \<and> m_levels t \<noteq> 0
          \<and> SetData_negotiated env img useAlpha t = Inr (Some (m_width t, m_height t, m_format t))
          \<and> SetData_firstData env img useAlpha t \<noteq> None
          \<and> SetData_image env imgLayer (Some img) useAlpha t = Inr (ok, t') \<longrightarrow>
          ok \<and> m_dataPending t' \<and> gfx_calls t' = gfx_calls t)
     \<and> (imgLayer \<noteq> 0 \<and> imgLayer < m_layers t \<and> m_object_name t = 0
          \<and> SetData_negotiated env img useAlpha t = Inr (Some (imgWidth, imgHeight, imgFormat)) \<longrightarrow>
          SetData_image env imgLayer (Some img) useAlpha t
            = Inr (False, LOG (LOGERROR ''Texture array layer 0 must be loaded first'') t))"
proof -
  have "BeginLoad env source t
          = (True, (LOG (LOGWARNING ''Texture load while device is lost'') t)\<lparr>m_dataPending := True\<rparr>)"
    using assms by (simp add: BeginLoad_def)
  moreover have "EndLoad env t = Inr (True, t)"
    using assms by (simp add: EndLoad_def)
  moreover have "SetData_region env layer level x y width height data t
            = (True, (LOG (LOGWARNING ''Texture array data assignment while device is lost'') t)
                       \<lparr>m_dataPending := True\<rparr>)"
    if "m_object_name t \<noteq> 0" "data \<noteq> None" "layer < m_layers t" "level < m_levels t"
    using assms that by (auto simp: SetData_region_def not_le)
  moreover have "fst (SetSize env layers width height format usage t)
          \<and> m_dataPending (snd (SetSize env layers width height format usage t)) = m_dataPending t
          \<and> m_object_name (snd (SetSize env layers width height format usage t)) = 0"
    if "0 <s width" "0 <s height" "usage \<noteq> TEXTURE_DEPTHSTENCIL"
      "(if layers \<noteq> 0 then layers else m_layers t) \<noteq> 0"
    by (simp add: SetSize_lost(1-3) [OF that(1-3) assms that(4)])
  moreover have "GetData env 0 level dest t
            = (False, LOG (LOGWARNING ''Getting texture data while device is lost'') t)"
    if "m_object_name t \<noteq> 0" "dest \<noteq> None" "level < m_levels t"
    using assms that by (auto simp: GetData_def not_le)
  moreover have "ok \<and> m_dataPending t' = m_dataPending t \<and> m_object_name t' = 0"
    if "m_layers t \<noteq> 0"
      "SetData_negotiated env img useAlpha t = Inr (Some (imgWidth, imgHeight, imgFormat))"
      "0 <s imgWidth" "0 <s imgHeight" "SetData_image env 0 (Some img) useAlpha t = Inr (ok, t')"
    using SetData_image_lost [OF assms that] by simp
  moreover have "ok \<and> m_dataPending t' \<and> gfx_calls t' = gfx_calls t"
    if "imgLayer \<noteq> 0" "imgLayer < m_layers t" "m_object_name t \<noteq> 0" "m_levels t \<noteq> 0"
      "SetData_negotiated env img useAlpha t = Inr (Some (m_width t, m_height t, m_format t))"
      "SetData_firstData env img useAlpha t \<noteq> None"
      "SetData_image env imgLayer (Some img) useAlpha t = Inr (ok, t')"
    using SetData_image_lost_layer [OF that(3) assms that(2,1,4-7)] .
  moreover have "SetData_image env imgLayer (Some img) useAlpha t
            = Inr (False, LOG (LOGERROR ''Texture array layer 0 must be loaded first'') t)"
    if "imgLayer \<noteq> 0" "imgLayer < m_layers t" "m_object_name t = 0"
      "SetData_negotiated env img useAlpha t = Inr (Some (imgWidth, imgHeight, imgFormat))"
  proof -
    have "SetData_checkLayer imgWidth imgHeight imgFormat t
            = Some (LOGERROR ''Texture array layer 0 must be loaded first'')"
      using that(3) by (simp add: SetData_checkLayer_def)
    from SetData_image_checked [OF that(1,2,4) this] show ?thesis .
  qed
  ultimately show ?thesis
    by blast
qed

theorem device_lost_operations_witness:
  "m_graphics lostTexture \<and> gfx_deviceLost lostTexture
   \<and> m_graphics lostUnsizedTexture \<and> gfx_deviceLost lostUnsizedTexture
   \<and> fst (BeginLoad desktopEnv [''a.png''] lostTexture)
   \<and> m_dataPending (snd (BeginLoad desktopEnv [''a.png''] lostTexture))
   \<and> EndLoad desktopEnv lostTexture = Inr (True, lostTexture)
   \<and> fst (SetData_region desktopEnv 1 0 0 0 2 2 (Some []) lostTexture)
   \<and> m_dataPending (snd (SetData_region desktopEnv 1 0 0 0 2 2 (Some []) lostTexture))
   \<and> fst (SetSize desktopEnv 2 2 2 0x1908 TEXTURE_STATIC lostTexture)
   \<and> m_object_name (snd (SetSize desktopEnv 2 2 2 0x1908 TEXTURE_STATIC lostTexture)) = 0
   \<and> \<not> fst (GetData desktopEnv 0 0 (Some 0) lostTexture)
   \<and> fst (projr (SetData_image desktopEnv 0 (Some (rgbaImage 2 2)) False lostTexture))
   \<and> \<not> m_dataPending
          (snd (projr (SetData_image desktopEnv 0 (Some (rgbaImage 2 2)) False lostTexture)))
   \<and> fst (projr (SetData_image desktopEnv 1 (Some (rgbaImage 2 2)) False lostTexture))
   \<and> m_dataPending
         (snd (projr (SetData_image desktopEnv 1 (Some (rgbaImage 2 2)) False lostTexture)))
   \<and> SetData_image desktopEnv 1 (Some (rgbaImage 2 2)) False lostUnsizedTexture
       = Inr (False, LOG (LOGERROR ''Texture array layer 0 must be loaded first'')
                       lostUnsizedTexture)"
proof -
  let ?r = "SetData_image desktopEnv 0 (Some (rgbaImage 2 2)) False lostTexture"
  let ?s = "SetData_image desktopEnv 1 (Some (rgbaImage 2 2)) False lostTexture"
  have h: "m_graphics lostTexture" "gfx_deviceLost lostTexture"
    and u: "m_graphics lostUnsizedTexture" "gfx_deviceLost lostUnsizedTexture"
    by code_simp+
  have g: "m_object_name lostTexture \<noteq> 0" "Some [] \<noteq> (None :: bytes option)"
    "1 < m_layers lostTexture" "0 < m_levels lostTexture" "0 <s (2 :: s32)"
    "TEXTURE_STATIC \<noteq> TEXTURE_DEPTHSTENCIL" "(if (2 :: u32) \<noteq> 0 then 2 else m_layers lostTexture) \<noteq> 0"
    "Some (0 :: nat) \<noteq> None" "m_layers lostTexture \<noteq> 0"
    "SetData_negotiated desktopEnv (rgbaImage 2 2) False lostTexture = Inr (Some (2, 2, 0x1908))"
    "\<not> m_dataPending lostTexture" "(1 :: u32) \<noteq> 0" "m_levels lostTexture \<noteq> 0"
    "m_width lostTexture = 2" "m_height lostTexture = 2" "m_format lostTexture = 0x1908"
    "SetData_firstData desktopEnv (rgbaImage 2 2) False lostTexture \<noteq> None"
    by code_simp+
  have v: "1 < m_layers lostUnsizedTexture" "m_object_name lostUnsizedTexture = 0"
    "SetData_negotiated desktopEnv (rgbaImage 2 2) False lostUnsizedTexture
       = Inr (Some (2, 2, 0x1908))"
    by code_simp+
  have "\<not> isl ?r" "\<not> isl ?s"
    by code_simp+
  then have r: "?r = Inr (fst (projr ?r), snd (projr ?r))"
    and s: "?s = Inr (fst (projr ?s), snd (projr ?s))"
    by simp_all
  from device_lost_operations
         [OF h, where env = desktopEnv and source = "[''a.png'']" and data = "Some []"
            and layer = 1 and level = 0 and x = 0 and y = 0 and width = 2 and height = 2
            and usage = TEXTURE_STATIC and layers = 2 and format = "0x1908" and dest = "Some 0"
            and img = "rgbaImage 2 2" and useAlpha = False and imgWidth = 2 and imgHeight = 2
            and imgFormat = "0x1908" and ok = "fst (projr ?r)" and t' = "snd (projr ?r)"]
       h g r
  have a: "fst (BeginLoad desktopEnv [''a.png''] lostTexture)"
    "m_dataPending (snd (BeginLoad desktopEnv [''a.png''] lostTexture))"
    "EndLoad desktopEnv lostTexture = Inr (True, lostTexture)"
    "fst (SetData_region desktopEnv 1 0 0 0 2 2 (Some []) lostTexture)"
    "m_dataPending (snd (SetData_region desktopEnv 1 0 0 0 2 2 (Some []) lostTexture))"
    "fst (SetSize desktopEnv 2 2 2 0x1908 TEXTURE_STATIC lostTexture)"
    "m_object_name (snd (SetSize desktopEnv 2 2 2 0x1908 TEXTURE_STATIC lostTexture)) = 0"
    "\<not> fst (GetData desktopEnv 0 0 (Some 0) lostTexture)"
    "fst (projr ?r)" "\<not> m_dataPending (snd (projr ?r))"
    by (simp_all add: LOG_def)
  from device_lost_operations
         [OF h, where env = desktopEnv and img = "rgbaImage 2 2" and useAlpha = False
            and imgLayer = 1 and ok = "fst (projr ?s)" and t' = "snd (projr ?s)"]
       g s
  have b: "fst (projr ?s)" "m_dataPending (snd (projr ?s))"
    by simp_all
  from device_lost_operations
         [OF u, where env = desktopEnv and img = "rgbaImage 2 2" and useAlpha = False
            and imgLayer = 1 and imgWidth = 2 and imgHeight = 2 and imgFormat = "0x1908"]
       g(12) v
  have c: "SetData_image desktopEnv 1 (Some (rgbaImage 2 2)) False lostUnsizedTexture
       = Inr (False, LOG (LOGERROR ''Texture array layer 0 must be loaded first'')
                       lostUnsizedTexture)"
    by simp
  from h u a b c show ?thesis
    by blast
qed

text \<open>
  The claim as written fails for \<^verbatim>\<open>GetData\<close>, which returns failure; for \<^verbatim>\<open>SetSize\<close>,
  \<^verbatim>\<open>EndLoad\<close> and \<^verbatim>\<open>SetData\<close> of an image to layer 0, which return success with
  \<^verbatim>\<open>dataPending_\<close> not set; and for \<^verbatim>\<open>SetData\<close> of an image to layer 1 after layer 0 on an
  object that has no GPU object, which returns failure.
\<close>

theorem device_lost_operations_counterexample:
  "m_graphics lostTexture \<and> gfx_deviceLost lostTexture \<and> m_object_name lostTexture \<noteq> 0
   \<and> 0 < m_levels lostTexture
   \<and> \<not> fst (GetData desktopEnv 0 0 (Some 0) lostTexture)
   \<and> fst (SetSize desktopEnv 2 2 2 0x1908 TEXTURE_STATIC lostTexture)
   \<and> \<not> m_dataPending (snd (SetSize desktopEnv 2 2 2 0x1908 TEXTURE_STATIC lostTexture))
   \<and> map_sum id (m_dataPending \<circ> snd) (EndLoad desktopEnv lostTexture) = Inr False
   \<and> map_sum id fst (SetData_image desktopEnv 0 (Some (rgbaImage 2 2)) False lostTexture) = Inr True
   \<and> map_sum id (m_dataPending \<circ> snd)
        (SetData_image desktopEnv 0 (Some (rgbaImage 2 2)) False lostTexture) = Inr False
   \<and> m_graphics lostUnsizedTexture \<and> gfx_deviceLost lostUnsizedTexture
   \<and> map_sum id fst (SetData_image desktopEnv 0 (Some (rgbaImage 2 2)) False lostUnsizedTexture)
       = Inr True
   \<and> map_sum id fst
        (SetData_image desktopEnv 1 (Some (rgbaImage 2 2)) False
           (snd (projr (SetData_image desktopEnv 0 (Some (rgbaImage 2 2)) False
                          lostUnsizedTexture)))) = Inr False"
  by code_simp

text \<open>
  C4 (as amended). For a compressed image with at least one level and an entry of the
  quality table below 32, the number of levels skipped is at most the number of levels of
  the image minus one and at most the entry; it is 0, or the first level left is at least
  4 texels wide and high; and every larger number within both bounds leaves a first level
  of less than 4 texels in width or height (the number is lowered one by one while that is
  so). In particular for an image of 8 by 8 texels with at least two levels and an entry of
  3 it is 1.
\<close>

theorem SetData_mipsToSkip_clamped:
  assumes "levels \<noteq> 0" "requested < 32"
  shows "\<exists>skip. SetData_mipsToSkip width height levels requested = Inr skip
           \<and> skip \<le> levels - 1 \<and> skip \<le> requested
           \<and> (skip \<noteq> 0 \<longrightarrow> \<not> tooSmall width height skip)
           \<and> (\<forall>k. skip < k \<and> k \<le> levels - 1 \<and> k \<le> requested \<longrightarrow> tooSmall width height k)
           \<and> (width = 8 \<and> height = 8 \<and> requested = 3 \<and> 2 \<le> levels \<longrightarrow> skip = 1)"
proof -
  let ?start = "if levels \<le> requested then levels - 1 else requested"
  have pred: "unat (levels - 1) = unat levels - 1" "0 < unat levels"
    using assms(1) by (simp_all add: unat_minus_one unat_gt_0)
  have req: "unat requested < 32"
    using assms(2) by (simp add: word_less_nat_alt)
  have start: "?start \<le> levels - 1" "?start \<le> requested"
    "\<And>k. k \<le> levels - 1 \<Longrightarrow> k \<le> requested \<Longrightarrow> k \<le> ?start"
    using pred by (auto simp: word_le_nat_alt)
  have "unat ?start < 32"
    using start(2) req by (simp add: word_le_nat_alt)
  then obtain skip where
    s: "SetData_lowerSkip width height ?start = Inr skip" "skip \<le> ?start"
       "skip \<noteq> 0 \<longrightarrow> \<not> tooSmall width height skip"
       "\<forall>k. skip < k \<and> k \<le> ?start \<longrightarrow> tooSmall width height k"
    using SetData_lowerSkip_spec [of ?start width height] by blast
  have eight: "skip = 1" if "width = 8" "height = 8" "requested = 3" "2 \<le> levels"
  proof -
    have "levels = 2 \<or> levels = 3 \<or> 3 < levels"
      using that(4) by (auto simp: word_le_nat_alt word_less_nat_alt word_unat_eq_iff)
    then have "?start = 1 \<or> ?start = 2 \<or> ?start = 3"
      using that(3) by auto
    moreover have "SetData_lowerSkip 8 8 1 = Inr 1" "SetData_lowerSkip 8 8 2 = Inr 1"
      "SetData_lowerSkip 8 8 3 = Inr 1"
      by code_simp+
    ultimately show ?thesis
      using s(1) that(1,2) by auto
  qed
  from s start eight show ?thesis
    unfolding SetData_mipsToSkip_def
    by (intro exI [of _ skip]) (auto intro: order_trans)
qed

theorem SetData_mipsToSkip_clamped_witness:
  "(4 :: u32) \<noteq> 0 \<and> (3 :: u32) < 32 \<and> (2 :: u32) \<le> 4
   \<and> SetData_mipsToSkip 8 8 4 3 = Inr 1 \<and> \<not> tooSmall 8 8 1 \<and> tooSmall 8 8 2 \<and> tooSmall 8 8 3"
proof -
  have k: "(1 :: u32) < 2 \<and> (2 :: u32) \<le> 4 - 1 \<and> (2 :: u32) \<le> 3"
    "(1 :: u32) < 3 \<and> (3 :: u32) \<le> 4 - 1 \<and> (3 :: u32) \<le> 3"
    by simp_all
  from SetData_mipsToSkip_clamped [of 4 3 8 8] k show ?thesis
    by auto
qed

text \<open>
  The claim as written fails for an 8 by 8 compressed image with one level (the number is
  0, not 1), for a 2 by 2 compressed image (the level left is 2 by 2), and for an
  uncompressed image, whose levels are discarded as the table says: with an entry of 2 an
  8 by 8 image is uploaded from its 2 by 2 level on.
\<close>

theorem SetData_mipsToSkip_counterexample:
  "SetData_mipsToSkip 8 8 1 3 = Inr 0
   \<and> SetData_mipsToSkip 2 2 2 1 = Inr 0 \<and> div_int 2 (push_bit (unat (0 :: u32)) 1) <s 4
   \<and> \<not> img_compressed (rgbaImage 8 8)
   \<and> SetData_prepare desktopEnv (rgbaImage 8 8) False QUALITY_LOW newTexture
       = Inr (Some (rgbaImage 2 2, 4, 0x1908))"
  by code_simp

text \<open>
  C5 (as amended). When \<^verbatim>\<open>Create\<close> runs on a live device with no requested level count
  (\<^verbatim>\<open>requestedLevels_\<close> is 0), a layer count that is not zero and width and height of at
  least 1, the level count it stores is the floor of the binary logarithm of the larger of
  width and height, plus 1.
\<close>

theorem Create_levels_floor_log2:
  assumes "m_graphics t" "\<not> gfx_deviceLost t" "m_layers t \<noteq> 0"
    and "0 <s m_width t" "0 <s m_height t" "m_requestedLevels t = 0"
  shows "int (unat (m_levels (snd (Create env t))))
           = \<lfloor>log 2 (real_of_int (max (sint (m_width t)) (sint (m_height t))))\<rfloor> + 1"
proof -
  let ?m = "nat (max (sint (m_width t)) (sint (m_height t)))"
  have nz: "m_width t \<noteq> 0" "m_height t \<noteq> 0"
    using assms(4,5) by auto
  have pos: "0 < max (sint (m_width t)) (sint (m_height t))"
    using assms(4) by (simp add: word_sless_alt)
  have "m_levels (snd (Create env t)) = Create_levels (Max_int (m_width t) (m_height t)) 0"
    using assms nz by (simp add: Create_live)
  then have "m_levels (snd (Create env t)) = of_nat (floorlog 2 ?m)"
    using assms(4,5) by (simp add: Create_levels_eq Max_int_positive)
  moreover have "floorlog 2 ?m \<le> 32"
    using floorlog_word_bound [of "Max_int (m_width t) (m_height t)"] assms(4,5)
    by (simp add: Max_int_positive)
  ultimately have "unat (m_levels (snd (Create env t))) = floorlog 2 ?m"
    by (simp add: unat_of_nat)
  moreover have "int (floorlog 2 ?m) = \<lfloor>log 2 (real ?m)\<rfloor> + 1"
    using pos by (simp add: floorlog_def)
  moreover have "real ?m = real_of_int (max (sint (m_width t)) (sint (m_height t)))"
    using pos by simp
  ultimately show ?thesis by simp
qed

theorem Create_levels_floor_log2_witness:
  "m_graphics (newTexture\<lparr>m_width := 3, m_height := 1, m_layers := 1\<rparr>)
   \<and> 0 <s (3 :: s32) \<and> 0 <s (1 :: s32)
   \<and> int (unat (m_levels (snd (Create desktopEnv
                                  (newTexture\<lparr>m_width := 3, m_height := 1, m_layers := 1\<rparr>)))))
       = \<lfloor>log 2 (real_of_int (max (sint (3 :: s32)) (sint (1 :: s32))))\<rfloor> + 1"
  using Create_levels_floor_log2
          [of "newTexture\<lparr>m_width := 3, m_height := 1, m_layers := 1\<rparr>" desktopEnv]
  by (simp add: newTexture_def word_sless_alt)

text \<open>
  With a width of 3 and a height of 1 the level count is 2; the ceiling of the binary
  logarithm of 3, plus 1, is 3.
\<close>

theorem Create_levels_ceiling_counterexample:
  "m_levels (snd (Create desktopEnv (newTexture\<lparr>m_width := 3, m_height := 1, m_layers := 1\<rparr>))) = 2
   \<and> \<lceil>log 2 (real_of_int (max (sint (3 :: s32)) (sint (1 :: s32))))\<rceil> + 1 = 3"
proof -
  have "ceillog2 3 = 2"
    by code_simp
  then have "nat \<lceil>log 2 (3 :: real)\<rceil> = 2"
    by (simp add: ceillog2_def)
  then have "\<lceil>log 2 (3 :: real)\<rceil> = 2"
    by linarith
  moreover have
    "m_levels (snd (Create desktopEnv (newTexture\<lparr>m_width := 3, m_height := 1, m_layers := 1\<rparr>))) = 2"
    by code_simp
  ultimately show ?thesis
    by simp
qed

text \<open>
  C6 (as amended). On an object with no GPU object (its layer count set, layer 0 not yet
  uploaded on a live device), \<^verbatim>\<open>SetData\<close> of an image to a layer other than 0 and below the
  layer count, when the conversion and the skipping of levels of the image succeed, returns
  failure with the message that layer 0 must be loaded first, and changes the log only.
\<close>

theorem SetData_image_layer0_first:
  assumes "layer \<noteq> 0" "layer < m_layers t" "m_object_name t = 0"
    and "SetData_negotiated env img useAlpha t = Inr (Some (width, height, format))"
  shows "SetData_image env layer (Some img) useAlpha t
           = Inr (False, LOG (LOGERROR ''Texture array layer 0 must be loaded first'') t)"
proof -
  have "SetData_checkLayer width height format t
          = Some (LOGERROR ''Texture array layer 0 must be loaded first'')"
    using assms(3) by (simp add: SetData_checkLayer_def)
  from SetData_image_checked [OF assms(1,2,4) this] show ?thesis .
qed

theorem SetData_image_layer0_first_witness:
  "(1 :: u32) \<noteq> 0 \<and> 1 < m_layers (SetLayers desktopEnv 2 newTexture)
   \<and> m_object_name (SetLayers desktopEnv 2 newTexture) = 0
   \<and> SetData_negotiated desktopEnv (rgbaImage 2 2) False (SetLayers desktopEnv 2 newTexture)
       = Inr (Some (2, 2, 0x1908))
   \<and> SetData_image desktopEnv 1 (Some (rgbaImage 2 2)) False (SetLayers desktopEnv 2 newTexture)
       = Inr (False, LOG (LOGERROR ''Texture array layer 0 must be loaded first'')
                       (SetLayers desktopEnv 2 newTexture))"
proof -
  have h: "(1 :: u32) \<noteq> 0" "1 < m_layers (SetLayers desktopEnv 2 newTexture)"
    "m_object_name (SetLayers desktopEnv 2 newTexture) = 0"
    "SetData_negotiated desktopEnv (rgbaImage 2 2) False (SetLayers desktopEnv 2 newTexture)
       = Inr (Some (2, 2, 0x1908))"
    by code_simp+
  from SetData_image_layer0_first [OF h] h show ?thesis
    by simp
qed

text \<open>
  The claim as written fails on an object that \<^verbatim>\<open>SetSize\<close> has just sized on a live device:
  the GPU object exists, and an image of the size and format of the array is uploaded to
  layer 1 with success.
\<close>

theorem SetData_image_layer0_first_counterexample:
  "fst (SetSize desktopEnv 2 2 2 0x1908 TEXTURE_STATIC newTexture)
   \<and> m_layerMemoryUse sizedTexture = [0, 0]
   \<and> map_sum id fst (SetData_image desktopEnv 1 (Some (rgbaImage 2 2)) False sizedTexture) = Inr True
   \<and> map_sum id (m_log \<circ> snd) (SetData_image desktopEnv 1 (Some (rgbaImage 2 2)) False sizedTexture)
       = Inr []"
  by code_simp

text \<open>
  C7. On an object with a GPU object, \<^verbatim>\<open>SetData\<close> of an image to a layer other than 0,
  whose width, height or format after the conversion and the skipping of levels differs
  from that of the object, returns failure, and the state after the call is the state
  before it but for the message added to the log: the memory-use counters, the dimensions,
  the format and the calls issued to the GPU are unchanged.
\<close>

theorem SetData_image_mismatch_unchanged:
  assumes "layer \<noteq> 0" "m_object_name t \<noteq> 0"
    and "SetData_negotiated env img useAlpha t = Inr (Some (width, height, format))"
    and "width \<noteq> m_width t \<or> height \<noteq> m_height t \<or> format \<noteq> m_format t"
  shows "SetData_image env layer (Some img) useAlpha t
           = Inr (False, t\<lparr>m_log := m_log t
                    @ [LOGERROR
                         (if m_layers t = 0 then ''Number of layers in the array must be set first''
                          else if m_layers t \<le> layer then ''Illegal layer for setting data''
                          else ''Texture array layer does not match size or format of layer 0'')]\<rparr>)"
proof (cases "layer < m_layers t")
  case True
  have "SetData_checkLayer width height format t
          = Some (LOGERROR ''Texture array layer does not match size or format of layer 0'')"
    using assms(2,4) by (auto simp: SetData_checkLayer_def)
  moreover from True have "m_layers t \<noteq> 0" "\<not> m_layers t \<le> layer"
    by auto
  ultimately show ?thesis
    using SetData_image_checked [OF assms(1) True assms(3)] by (simp add: LOG_def)
next
  case False
  show ?thesis
  proof (cases "m_layers t = 0")
    case True
    then show ?thesis
      by (simp add: SetData_image_def LOG_def)
  next
    case nz: False
    from False have "m_layers t \<le> layer"
      by (simp add: not_less)
    with nz show ?thesis
      by (simp add: SetData_image_def LOG_def)
  qed
qed

theorem SetData_image_mismatch_unchanged_witness:
  "(1 :: u32) \<noteq> 0 \<and> m_object_name sizedTexture \<noteq> 0
   \<and> SetData_negotiated desktopEnv (rgbaImage 4 4) False sizedTexture = Inr (Some (4, 4, 0x1908))
   \<and> 4 \<noteq> m_width sizedTexture
   \<and> SetData_image desktopEnv 1 (Some (rgbaImage 4 4)) False sizedTexture
       = Inr (False, sizedTexture\<lparr>m_log := m_log sizedTexture
                @ [LOGERROR ''Texture array layer does not match size or format of layer 0'']\<rparr>)"
proof -
  have h: "(1 :: u32) \<noteq> 0" "m_object_name sizedTexture \<noteq> 0"
    "SetData_negotiated desktopEnv (rgbaImage 4 4) False sizedTexture = Inr (Some (4, 4, 0x1908))"
    "4 \<noteq> m_width sizedTexture"
    by code_simp+
  have l: "m_layers sizedTexture = 2" "\<not> (2 :: u32) \<le> 1"
    by code_simp+
  from h(4) have "4 \<noteq> m_width sizedTexture \<or> 4 \<noteq> m_height sizedTexture
                    \<or> 0x1908 \<noteq> m_format sizedTexture"
    by simp
  from SetData_image_mismatch_unchanged [OF h(1-3) this]
  have "SetData_image desktopEnv 1 (Some (rgbaImage 4 4)) False sizedTexture
       = Inr (False, sizedTexture\<lparr>m_log := m_log sizedTexture
                @ [LOGERROR ''Texture array layer does not match size or format of layer 0'']\<rparr>)"
    by (simp add: l)
  with h show ?thesis
    by blast
qed

text \<open>
  C8. \<^verbatim>\<open>SetSize\<close> with a width or a height that is not positive, or with the depth-stencil
  usage, returns failure, and the state after the call is the state before it but for the
  message added to the log: width, height, format, layer count, usage, GPU object, counters
  and render surface are unchanged.
\<close>

theorem SetSize_rejects_unchanged:
  assumes "width \<le>s 0 \<or> height \<le>s 0 \<or> usage = TEXTURE_DEPTHSTENCIL"
  shows "fst (SetSize env layers width height format usage t) = False
         \<and> (snd (SetSize env layers width height format usage t))\<lparr>m_log := m_log t\<rparr> = t"
  using assms by (auto simp: SetSize_def LOG_def)

theorem SetSize_rejects_unchanged_witness:
  "(0 :: s32) \<le>s 0
   \<and> fst (SetSize desktopEnv 2 0 2 0x1908 TEXTURE_STATIC sizedTexture) = False
   \<and> (snd (SetSize desktopEnv 2 0 2 0x1908 TEXTURE_STATIC sizedTexture))
        \<lparr>m_log := m_log sizedTexture\<rparr> = sizedTexture"
  using SetSize_rejects_unchanged [of 0 2 TEXTURE_STATIC desktopEnv 2 "0x1908" sizedTexture]
  by (simp add: word_sle_eq)

text \<open>
  C9. \<^verbatim>\<open>Release\<close> is idempotent: two calls in a row leave the state that one call leaves;
  on an object with no GPU object the call changes nothing; with no graphics subsystem
  (headless) the call changes nothing.
\<close>

theorem Release_idempotent:
  "Release env (Release env t) = Release env t
   \<and> (m_object_name t = 0 \<longrightarrow> Release env t = t)
   \<and> (\<not> m_graphics t \<longrightarrow> Release env t = t)"
proof -
  have "Release env (Release env t) = Release env t"
  proof (cases "m_object_name t = 0 \<or> \<not> m_graphics t")
    case True
    then show ?thesis by (simp add: Release_noop)
  next
    case False
    then obtain tx cs rs where
      "Release env t = t\<lparr>gfx_textures := tx, gfx_calls := cs, m_renderSurface := rs, m_object_name := 0\<rparr>"
      using Release_shape [of t env] by blast
    then have "m_object_name (Release env t) = 0" by simp
    then show ?thesis by (simp add: Release_noop)
  qed
  then show ?thesis by (simp add: Release_noop)
qed

theorem Release_idempotent_witness:
  "m_object_name newTexture = 0 \<and> \<not> m_graphics (sizedTexture\<lparr>m_graphics := False\<rparr>)
   \<and> Release desktopEnv newTexture = newTexture
   \<and> Release desktopEnv (sizedTexture\<lparr>m_graphics := False\<rparr>) = sizedTexture\<lparr>m_graphics := False\<rparr>
   \<and> Release desktopEnv (Release desktopEnv sizedTexture) = Release desktopEnv sizedTexture"
  using Release_idempotent [of desktopEnv newTexture]
    Release_idempotent [of desktopEnv "sizedTexture\<lparr>m_graphics := False\<rparr>"]
    Release_idempotent [of desktopEnv sizedTexture]
  by (simp add: newTexture_def)

text \<open>
  C10. \<^verbatim>\<open>SetSize\<close> with \<open>layers = 0\<close> keeps the layer count stored before, and every call that
  passes the validation leaves as many memory-use counters as the object has layers, all 0.
\<close>

theorem SetSize_layers_and_counters:
  assumes "0 <s width" "0 <s height" "usage \<noteq> TEXTURE_DEPTHSTENCIL"
  shows "m_layers (snd (SetSize env layers width height format usage t))
           = (if layers = 0 then m_layers t else layers)
         \<and> m_layerMemoryUse (snd (SetSize env layers width height format usage t))
           = replicate (unat (m_layers (snd (SetSize env layers width height format usage t)))) 0"
proof -
  have v: "\<not> (width \<le>s 0 \<or> height \<le>s 0)"
    using assms by (auto simp: word_sle_eq word_sless_alt)
  show ?thesis
    using v assms(3)
    by (simp add: SetSize_def Let_def Create_fields SetSize_clear_Resize)
qed

theorem SetSize_layers_and_counters_witness:
  "0 <s (2 :: s32) \<and> TEXTURE_STATIC \<noteq> TEXTURE_DEPTHSTENCIL
   \<and> m_layers (snd (SetSize desktopEnv 0 2 2 0x1908 TEXTURE_STATIC
                        (newTexture\<lparr>m_layers := 3, m_layerMemoryUse := [7]\<rparr>))) = 3
   \<and> m_layerMemoryUse (snd (SetSize desktopEnv 0 2 2 0x1908 TEXTURE_STATIC
                                (newTexture\<lparr>m_layers := 3, m_layerMemoryUse := [7]\<rparr>))) = [0, 0, 0]"
proof -
  let ?t = "newTexture\<lparr>m_layers := 3, m_layerMemoryUse := [7]\<rparr>"
  let ?r = "snd (SetSize desktopEnv 0 2 2 0x1908 TEXTURE_STATIC ?t)"
  have three: "replicate (unat (3 :: u32)) (0 :: u32) = [0, 0, 0]"
    by code_simp
  have "0 <s (2 :: s32)" "TEXTURE_STATIC \<noteq> TEXTURE_DEPTHSTENCIL"
    by (simp_all add: word_sless_alt)
  moreover from this have "m_layers ?r = (if (0 :: u32) = 0 then m_layers ?t else 0)
      \<and> m_layerMemoryUse ?r = replicate (unat (m_layers ?r)) 0"
    using SetSize_layers_and_counters [of 2 2 TEXTURE_STATIC desktopEnv 0 "0x1908" ?t]
    by blast
  ultimately show ?thesis
    using three by simp
qed

end
